theory Spec2Isabelle
  imports Main
begin

section \<open>Values handled by the request pipeline\<close>

text \<open>
  The development embeds \<^verbatim>\<open>core/handlers/exception.py\<close> and
  \<^verbatim>\<open>core/handlers/base.py\<close>. Python names that start with an underscore are
  written with the prefix \<open>u_\<close> (\<open>u_get_response\<close> is \<^verbatim>\<open>_get_response\<close>).

  Exceptions are instances of \<^verbatim>\<open>Exception\<close>: a class and the text \<^verbatim>\<open>str(exc)\<close>.
  The classes of \<^verbatim>\<open>django.core.exceptions\<close> that the handlers test with
  \<^verbatim>\<open>isinstance\<close> are constructors; \<open>DisallowedHost\<close> stands for a subclass of
  \<^verbatim>\<open>SuspiciousOperation\<close> that is not one of the three limit classes.
\<close>

datatype exc_class =
    Http404
  | PermissionDenied
  | MultiPartParserError
  | BadRequest
  | SuspiciousOperation
  | RequestDataTooBig
  | TooManyFieldsSent
  | TooManyFilesSent
  | DisallowedHost
  | MiddlewareNotUsed
  | ImproperlyConfigured
  | RuntimeError
  | ValueError
  | AttributeError
  | TypeError
  | OtherError string

fun class_name :: "exc_class \<Rightarrow> string" where
  "class_name Http404 = ''Http404''"
| "class_name PermissionDenied = ''PermissionDenied''"
| "class_name MultiPartParserError = ''MultiPartParserError''"
| "class_name BadRequest = ''BadRequest''"
| "class_name SuspiciousOperation = ''SuspiciousOperation''"
| "class_name RequestDataTooBig = ''RequestDataTooBig''"
| "class_name TooManyFieldsSent = ''TooManyFieldsSent''"
| "class_name TooManyFilesSent = ''TooManyFilesSent''"
| "class_name DisallowedHost = ''DisallowedHost''"
| "class_name MiddlewareNotUsed = ''MiddlewareNotUsed''"
| "class_name ImproperlyConfigured = ''ImproperlyConfigured''"
| "class_name RuntimeError = ''RuntimeError''"
| "class_name ValueError = ''ValueError''"
| "class_name AttributeError = ''AttributeError''"
| "class_name TypeError = ''TypeError''"
| "class_name (OtherError n) = n"

datatype exception = Exception (exc_class: exc_class) (exc_str: string)

text \<open>
  Modelled from the spec: the class hierarchy of \<^verbatim>\<open>django.core.exceptions\<close> is not
  part of the sources at hand; the spec lists the oversized-body, too-many-fields and
  too-many-files kinds as subkinds of \<^verbatim>\<open>SuspiciousOperation\<close>.
\<close>

fun is_SuspiciousOperation :: "exc_class \<Rightarrow> bool" where
  "is_SuspiciousOperation SuspiciousOperation = True"
| "is_SuspiciousOperation RequestDataTooBig = True"
| "is_SuspiciousOperation TooManyFieldsSent = True"
| "is_SuspiciousOperation TooManyFilesSent = True"
| "is_SuspiciousOperation DisallowedHost = True"
| "is_SuspiciousOperation _ = False"

fun is_limit_class :: "exc_class \<Rightarrow> bool" where
  "is_limit_class RequestDataTooBig = True"
| "is_limit_class TooManyFieldsSent = True"
| "is_limit_class TooManyFilesSent = True"
| "is_limit_class _ = False"

record request =
  path :: string
  path_info :: string
  req_urlconf :: "string option"

text \<open>
  A response: \<open>is_rendered\<close> is \<open>None\<close> when the object has no such attribute,
  \<open>render\<close> is \<open>None\<close> when it has no render operation, and otherwise holds what
  calling \<^verbatim>\<open>response.render()\<close> gives. A resource closer is the close callback of a
  request or some other callback. \<open>u_has_been_logged\<close> is what
  \<^verbatim>\<open>getattr(response, "_has_been_logged", False)\<close> gives.
\<close>

datatype closer = RequestClose request | OtherCloser string

datatype response =
  Response (status_code: int) (reason_phrase: string) (content: string)
    (u_resource_closers: "closer list") (is_rendered: "bool option")
    (render: "(exception + response) option") (u_has_been_logged: bool)

text \<open>
  What a view, a hook or a stage may return: \<^verbatim>\<open>None\<close>, a coroutine object that
  was never awaited, a response, or any other object (with its truth value).
\<close>

datatype pyobj = PyNone | PyCoroutine | PyOther bool | PyResponse response

fun truthy :: "pyobj \<Rightarrow> bool" where
  "truthy PyNone = False"
| "truthy PyCoroutine = True"
| "truthy (PyOther b) = b"
| "truthy (PyResponse r) = True"

type_synonym args = "string list"
type_synonym kwargs = "(string \<times> string) list"

record callable_info =
  is_FunctionType :: bool
  cb_module :: string
  cb_name :: string
  cb_class_name :: string

text \<open>
  A view: \<open>atomic_using\<close> lists the database aliases whose
  \<^verbatim>\<open>transaction.atomic\<close> wrapper surrounds it (outermost first).
\<close>

record view =
  view_info :: callable_info
  view_iscoroutinefunction :: bool
  u_non_atomic_requests :: "string list"
  atomic_using :: "string list"
  view_call :: "request \<Rightarrow> args \<Rightarrow> kwargs \<Rightarrow> exception + pyobj"

type_synonym resolver_match = "view \<times> args \<times> kwargs"

text \<open>
  Effects are recorded in a trace, in the order in which they happen. Views and hooks are
  functions of their arguments; the pipeline records each of their invocations.
\<close>

datatype event =
    LogResponse string int
  | SecurityLog string string int
  | LoggerDebug string
  | GotRequestException
  | CallView string "string list"
  | CallHook string string

record world =
  trace :: "event list"
  post_parse_error :: bool
  current_urlconf :: "string option"
  resolver_match :: "resolver_match option"

definition emit :: "event \<Rightarrow> world \<Rightarrow> world" where
  "emit e w = w\<lparr>trace := trace w @ [e]\<rparr>"

definition set_urlconf :: "string option \<Rightarrow> world \<Rightarrow> world" where
  "set_urlconf urlconf w = w\<lparr>current_urlconf := urlconf\<rparr>"

type_synonym error_view = "request \<Rightarrow> exception option \<Rightarrow> exception + response"

record resolver =
  resolve :: "string \<Rightarrow> exception + resolver_match"
  resolve_error_handler :: "int \<Rightarrow> exception + error_view"

type_synonym handler_fn = "request \<Rightarrow> world \<Rightarrow> (exception + pyobj) \<times> world"

section \<open>Stages\<close>

record 'f hook =
  hook_info :: callable_info
  self_class_name :: string
  hook_iscoroutinefunction :: bool
  hook_call :: 'f

type_synonym view_hook = "(request \<Rightarrow> view \<Rightarrow> args \<Rightarrow> kwargs \<Rightarrow> exception + pyobj) hook"
type_synonym template_hook = "(request \<Rightarrow> pyobj \<Rightarrow> exception + pyobj) hook"
type_synonym exception_hook = "(request \<Rightarrow> exception \<Rightarrow> exception + pyobj) hook"

text \<open>
  A stage instance: \<open>inst_call\<close> is its \<^verbatim>\<open>__call__\<close> as a function of the
  handler the factory was given; each hook is present when the instance has the attribute.
\<close>

record mw_instance =
  inst_call :: "handler_fn \<Rightarrow> handler_fn"
  process_view :: "view_hook option"
  process_template_response :: "template_hook option"
  process_exception :: "exception_hook option"

datatype factory_outcome = Raises exception | ReturnsNone | Returns mw_instance

text \<open>
  A stage descriptor, as \<^verbatim>\<open>import_string\<close> gives it: a capability flag is
  \<open>None\<close> when the class does not define it.
\<close>

record middleware =
  mw_path :: string
  sync_capable :: "bool option"
  async_capable :: "bool option"
  factory :: factory_outcome

section \<open>Settings and collaborators\<close>

record env =
  DEBUG :: bool
  DEBUG_PROPAGATE_EXCEPTIONS :: bool
  ROOT_URLCONF :: string
  MIDDLEWARE :: "middleware list"
  connections_settings :: "(string \<times> bool) list"
  get_resolver :: "string option \<Rightarrow> resolver"
  technical_404_response :: "request \<Rightarrow> exception \<Rightarrow> response"
  technical_500_response :: "request \<Rightarrow> exception \<Rightarrow> int \<Rightarrow> response"

text \<open>
  Modelled from the spec: \<^verbatim>\<open>log_response\<close> of \<^verbatim>\<open>django.utils.log\<close> is not
  among the sources at hand; the handlers call it at lines 80, 92, 109 and 147 of
  \<^verbatim>\<open>exception.py\<close> and at lines 189 and 212 of \<^verbatim>\<open>base.py\<close>. The spec has it
  emit the line it is given for the response. The function of the framework emits the line
  once per response: it marks the response it logs (\<^verbatim>\<open>_has_been_logged\<close>) and does
  nothing for a response that carries the mark, so that a response logged where its
  exception was caught is not logged again by the entry point. The line is recorded with the
  formatted message and the status of the response.
\<close>

definition mark_logged :: "response \<Rightarrow> response" where
  "mark_logged r =
     Response (status_code r) (reason_phrase r) (content r) (u_resource_closers r)
       (is_rendered r) (render r) True"

definition log_response :: "string \<Rightarrow> response \<Rightarrow> world \<Rightarrow> response \<times> world" where
  "log_response message response w =
     (if u_has_been_logged response then (response, w)
      else (mark_logged response, emit (LogResponse message (status_code response)) w))"

section \<open>exception.py\<close>

definition handle_uncaught_exception ::
  "env \<Rightarrow> request \<Rightarrow> resolver \<Rightarrow> exception \<Rightarrow> exception + response" where
  "handle_uncaught_exception env request resolver exc_info =
     (if DEBUG_PROPAGATE_EXCEPTIONS env then Inl exc_info
      else if DEBUG env then Inr (technical_500_response env request exc_info 500)
      else (case resolve_error_handler resolver 500 of
              Inl e \<Rightarrow> Inl e
            | Inr callback \<Rightarrow> callback request None))"

definition get_exception_response ::
  "env \<Rightarrow> request \<Rightarrow> resolver \<Rightarrow> int \<Rightarrow> exception \<Rightarrow> world
     \<Rightarrow> (exception + response) \<times> world" where
  "get_exception_response env request resolver status exc w =
     (case (case resolve_error_handler resolver status of
              Inl e \<Rightarrow> Inl e
            | Inr callback \<Rightarrow> callback request (Some exc)) of
        Inr response \<Rightarrow> (Inr response, w)
      | Inl e \<Rightarrow>
          (handle_uncaught_exception env request resolver e, emit GotRequestException w))"

text \<open>The last step of \<^verbatim>\<open>response_for_exception\<close>: force a deferred response to render.\<close>

definition force_render :: "response \<Rightarrow> exception + response" where
  "force_render response =
     (if \<not> (case is_rendered response of None \<Rightarrow> True | Some b \<Rightarrow> b)
      then (case render response of None \<Rightarrow> Inr response | Some rendered \<Rightarrow> rendered)
      else Inr response)"

definition rendered_result ::
  "(exception + response) \<times> world \<Rightarrow> (exception + response) \<times> world" where
  "rendered_result rw =
     (case rw of
        (Inl e, w) \<Rightarrow> (Inl e, w)
      | (Inr response, w) \<Rightarrow> (force_render response, w))"

definition logged_result ::
  "(response \<Rightarrow> string) \<Rightarrow> (exception + response) \<times> world
     \<Rightarrow> (exception + response) \<times> world" where
  "logged_result message rw =
     (case rw of
        (Inl e, w) \<Rightarrow> (Inl e, w)
      | (Inr response, w) \<Rightarrow>
          (Inr (fst (log_response (message response) response w)),
           snd (log_response (message response) response w)))"

definition response_for_exception ::
  "env \<Rightarrow> request \<Rightarrow> exception \<Rightarrow> world \<Rightarrow> (exception + response) \<times> world" where
  "response_for_exception env request exc w =
     (let resolver = get_resolver env (current_urlconf w) in
      if exc_class exc = Http404 then
        (if DEBUG env then rendered_result (Inr (technical_404_response env request exc), w)
         else rendered_result (get_exception_response env request resolver 404 exc w))
      else if exc_class exc = PermissionDenied then
        rendered_result
          (logged_result (\<lambda>response. ''Forbidden (Permission denied): '' @ path request)
             (get_exception_response env request resolver 403 exc w))
      else if exc_class exc = MultiPartParserError then
        rendered_result
          (logged_result (\<lambda>response. ''Bad request (Unable to parse request body): '' @ path request)
             (get_exception_response env request resolver 400 exc w))
      else if exc_class exc = BadRequest then
        rendered_result
          (logged_result (\<lambda>response. exc_str exc @ '': '' @ path request)
             (if DEBUG env then (Inr (technical_500_response env request exc 400), w)
              else get_exception_response env request resolver 400 exc w))
      else if is_SuspiciousOperation (exc_class exc) then
        (let w1 = (if is_limit_class (exc_class exc) then w\<lparr>post_parse_error := True\<rparr> else w);
             w2 = emit (SecurityLog (''django.security.'' @ class_name (exc_class exc))
                          (exc_str exc) 400) w1
         in rendered_result
              (if DEBUG env then (Inr (technical_500_response env request exc 400), w2)
               else get_exception_response env request resolver 400 exc w2))
      else
        rendered_result
          (logged_result (\<lambda>response. reason_phrase response @ '': '' @ path request)
             (handle_uncaught_exception env request resolver exc, emit GotRequestException w)))"

text \<open>
  \<^verbatim>\<open>convert_exception_to_response\<close>: the blocking and the cooperative wrapper differ
  only in awaiting the calls, which in this sequential model is calling them.
\<close>

definition convert_exception_to_response :: "env \<Rightarrow> handler_fn \<Rightarrow> handler_fn" where
  "convert_exception_to_response env get_response = (\<lambda>request w.
     case get_response request w of
       (Inr response, w1) \<Rightarrow> (Inr response, w1)
     | (Inl exc, w1) \<Rightarrow>
         (case response_for_exception env request exc w1 of
            (Inl e, w2) \<Rightarrow> (Inl e, w2)
          | (Inr response, w2) \<Rightarrow> (Inr (PyResponse response), w2)))"

section \<open>base.py: the dispatch engine\<close>

text \<open>The three hook lists of a \<^verbatim>\<open>BaseHandler\<close>.\<close>

record hook_lists =
  u_view_middleware :: "view_hook list"
  u_template_response_middleware :: "template_hook list"
  u_exception_middleware :: "exception_hook list"

text \<open>
  The execution-mode wrappers of \<^verbatim>\<open>asgiref.sync\<close> change how a callable is
  scheduled, not what it returns, raises or records.
\<close>

definition sync_to_async :: "'a \<Rightarrow> 'a" where
  "sync_to_async method = method"

definition async_to_sync :: "'a \<Rightarrow> 'a" where
  "async_to_sync method = method"

text \<open>
  \<^verbatim>\<open>adapt_method_mode\<close> returns the adapted method and the debug lines it logs.
  The caller passes \<open>method_is_async\<close> (for the default, what
  \<^verbatim>\<open>iscoroutinefunction(method)\<close> gives) and the name used in the log lines.
\<close>

definition adapt_method_mode ::
  "bool \<Rightarrow> 'a \<Rightarrow> bool \<Rightarrow> bool \<Rightarrow> string \<Rightarrow> 'a \<times> event list" where
  "adapt_method_mode is_async method method_is_async debug name =
     (if is_async then
        (if \<not> method_is_async then
           (sync_to_async method,
            if debug then [LoggerDebug (''Synchronous handler adapted for '' @ name @ ''.'')]
            else [])
         else (method, []))
      else if method_is_async then
        (async_to_sync method,
         if debug then [LoggerDebug (''Asynchronous handler adapted for '' @ name @ ''.'')]
         else [])
      else (method, []))"

definition resolve_request ::
  "env \<Rightarrow> request \<Rightarrow> world \<Rightarrow> (exception + resolver_match) \<times> world" where
  "resolve_request env request w =
     (let w1 = (case req_urlconf request of
                  Some urlconf \<Rightarrow> set_urlconf (Some urlconf) w
                | None \<Rightarrow> w);
          resolver = (case req_urlconf request of
                        Some urlconf \<Rightarrow> get_resolver env (Some urlconf)
                      | None \<Rightarrow> get_resolver env None)
      in case resolve resolver (path_info request) of
           Inl e \<Rightarrow> (Inl e, w1)
         | Inr rm \<Rightarrow> (Inr rm, w1\<lparr>resolver_match := Some rm\<rparr>))"

definition check_response :: "pyobj \<Rightarrow> callable_info \<Rightarrow> string option \<Rightarrow> exception option" where
  "check_response response callback name =
     (if \<not> (response = PyNone \<or> response = PyCoroutine) then None
      else
        let name1 =
          (if name = None \<or> name = Some [] then
             (if is_FunctionType callback
              then ''The view '' @ cb_module callback @ ''.'' @ cb_name callback
              else ''The view '' @ cb_module callback @ ''.'' @ cb_class_name callback
                     @ ''.__call__'')
           else (case name of Some n \<Rightarrow> n | None \<Rightarrow> []))
        in if response = PyNone then
             Some (Exception ValueError
                (name1 @ '' didn't return an HttpResponse object. It returned None instead.''))
           else
             Some (Exception ValueError
                (name1 @ '' didn't return an HttpResponse object. It returned an ''
                   @ ''unawaited coroutine instead. You may need to add an 'await' ''
                   @ ''into your view.'')))"

definition transaction_atomic :: "string \<Rightarrow> view \<Rightarrow> view" where
  "transaction_atomic alias v = v\<lparr>atomic_using := alias # atomic_using v\<rparr>"

fun atomic_loop :: "(string \<times> bool) list \<Rightarrow> string list \<Rightarrow> view \<Rightarrow> exception + view" where
  "atomic_loop [] non_atomic_requests v = Inr v"
| "atomic_loop ((alias, atomic_requests) # rest) non_atomic_requests v =
     (if atomic_requests \<and> alias \<notin> set non_atomic_requests then
        (if view_iscoroutinefunction v then
           Inl (Exception RuntimeError ''You cannot use ATOMIC_REQUESTS with async views.'')
         else atomic_loop rest non_atomic_requests (transaction_atomic alias v))
      else atomic_loop rest non_atomic_requests v)"

definition make_view_atomic :: "env \<Rightarrow> view \<Rightarrow> exception + view" where
  "make_view_atomic env v = atomic_loop (connections_settings env) (u_non_atomic_requests v) v"

definition hook_event :: "'f hook \<Rightarrow> string \<Rightarrow> event" where
  "hook_event h method = CallHook (self_class_name h) method"

fun process_exception_by_middleware ::
  "exception_hook list \<Rightarrow> exception \<Rightarrow> request \<Rightarrow> world \<Rightarrow> (exception + pyobj) \<times> world" where
  "process_exception_by_middleware [] exc request w = (Inr PyNone, w)"
| "process_exception_by_middleware (middleware_method # rest) exc request w =
     (let w1 = emit (hook_event middleware_method ''process_exception'') w in
      case hook_call middleware_method request exc of
        Inl e \<Rightarrow> (Inl e, w1)
      | Inr response \<Rightarrow>
          if truthy response then (Inr response, w1)
          else process_exception_by_middleware rest exc request w1)"

text \<open>
  The loop over the pre-invocation hooks; \<open>response\<close> is the value the variable holds
  when the loop is entered.
\<close>

fun view_middleware_loop ::
  "view_hook list \<Rightarrow> request \<Rightarrow> resolver_match \<Rightarrow> pyobj \<Rightarrow> world
     \<Rightarrow> (exception + pyobj) \<times> world" where
  "view_middleware_loop [] request rm response w = (Inr response, w)"
| "view_middleware_loop (middleware_method # rest) request rm response w =
     (let w1 = emit (hook_event middleware_method ''process_view'') w in
      case hook_call middleware_method request (fst rm) (fst (snd rm)) (snd (snd rm)) of
        Inl e \<Rightarrow> (Inl e, w1)
      | Inr response1 \<Rightarrow>
          if truthy response1 then (Inr response1, w1)
          else view_middleware_loop rest request rm response1 w1)"

text \<open>
  Calling the view: the transaction wrappers, then the call; an exception goes to the
  on-fault hooks and is raised again when they all decline.
\<close>

definition view_name_of :: "view \<Rightarrow> string" where
  "view_name_of v = cb_module (view_info v) @ ''.'' @ cb_name (view_info v)"

definition with_exception_middleware ::
  "exception_hook list \<Rightarrow> request \<Rightarrow> (exception + pyobj) \<times> world
     \<Rightarrow> (exception + pyobj) \<times> world" where
  "with_exception_middleware hooks request rw =
     (case rw of
        (Inr response, w) \<Rightarrow> (Inr response, w)
      | (Inl e, w) \<Rightarrow>
          (case process_exception_by_middleware hooks e request w of
             (Inl e1, w1) \<Rightarrow> (Inl e1, w1)
           | (Inr response, w1) \<Rightarrow>
               if response = PyNone then (Inl e, w1) else (Inr response, w1)))"

definition call_view ::
  "env \<Rightarrow> hook_lists \<Rightarrow> bool \<Rightarrow> request \<Rightarrow> resolver_match \<Rightarrow> world
     \<Rightarrow> (exception + pyobj) \<times> world" where
  "call_view env self is_async request rm w =
     (case make_view_atomic env (fst rm) of
        Inl e \<Rightarrow> (Inl e, w)
      | Inr wrapped_callback \<Rightarrow>
          (let wrapped_callback1 =
                 (if is_async then
                    (if \<not> view_iscoroutinefunction wrapped_callback
                     then sync_to_async wrapped_callback else wrapped_callback)
                  else
                    (if view_iscoroutinefunction wrapped_callback
                     then async_to_sync wrapped_callback else wrapped_callback));
               w1 = emit (CallView (view_name_of wrapped_callback1)
                            (atomic_using wrapped_callback1)) w
           in with_exception_middleware (u_exception_middleware self) request
                (view_call wrapped_callback1 request (fst (snd rm)) (snd (snd rm)), w1)))"

text \<open>The loop over the post-render hooks, each followed by the validation of its result.\<close>

fun template_response_loop ::
  "template_hook list \<Rightarrow> request \<Rightarrow> pyobj \<Rightarrow> world \<Rightarrow> (exception + pyobj) \<times> world" where
  "template_response_loop [] request response w = (Inr response, w)"
| "template_response_loop (middleware_method # rest) request response w =
     (let w1 = emit (hook_event middleware_method ''process_template_response'') w in
      case hook_call middleware_method request response of
        Inl e \<Rightarrow> (Inl e, w1)
      | Inr response1 \<Rightarrow>
          (case check_response response1 (hook_info middleware_method)
                  (Some (self_class_name middleware_method @ ''.process_template_response'')) of
             Some e \<Rightarrow> (Inl e, w1)
           | None \<Rightarrow> template_response_loop rest request response1 w1))"

definition has_render :: "pyobj \<Rightarrow> bool" where
  "has_render response =
     (case response of PyResponse r \<Rightarrow> render r \<noteq> None | _ \<Rightarrow> False)"

definition call_render :: "pyobj \<Rightarrow> exception + pyobj" where
  "call_render response =
     (case response of
        PyResponse r \<Rightarrow>
          (case render r of
             Some (Inr rendered) \<Rightarrow> Inr (PyResponse rendered)
           | Some (Inl e) \<Rightarrow> Inl e
           | None \<Rightarrow> Inl (Exception AttributeError ''render''))
      | _ \<Rightarrow> Inl (Exception AttributeError ''render''))"

definition render_phase ::
  "hook_lists \<Rightarrow> request \<Rightarrow> pyobj \<Rightarrow> world \<Rightarrow> (exception + pyobj) \<times> world" where
  "render_phase self request response w =
     (if has_render response then
        (case template_response_loop (u_template_response_middleware self) request response w of
           (Inl e, w1) \<Rightarrow> (Inl e, w1)
         | (Inr response1, w1) \<Rightarrow>
             with_exception_middleware (u_exception_middleware self) request
               (call_render response1, w1))
      else (Inr response, w))"

text \<open>
  The body that \<^verbatim>\<open>_get_response\<close> and \<^verbatim>\<open>_get_response_async\<close> share:
  resolve, run the pre-invocation hooks, call the view when they leave \<^verbatim>\<open>None\<close>,
  validate, run the render phase. The two functions differ in which way they adapt the
  view (\<open>is_async\<close>) and in that the cooperative one awaits each call, which here is
  calling it; the cooperative one checks once more at the end that the response is no
  coroutine.
\<close>

definition dispatch ::
  "env \<Rightarrow> hook_lists \<Rightarrow> bool \<Rightarrow> request \<Rightarrow> world \<Rightarrow> (exception + pyobj) \<times> world" where
  "dispatch env self is_async request w =
     (case resolve_request env request w of
        (Inl e, w1) \<Rightarrow> (Inl e, w1)
      | (Inr rm, w1) \<Rightarrow>
          (case view_middleware_loop (u_view_middleware self) request rm PyNone w1 of
             (Inl e, w2) \<Rightarrow> (Inl e, w2)
           | (Inr response, w2) \<Rightarrow>
               (case (if response = PyNone then call_view env self is_async request rm w2
                      else (Inr response, w2)) of
                  (Inl e, w3) \<Rightarrow> (Inl e, w3)
                | (Inr response1, w3) \<Rightarrow>
                    (case check_response response1 (view_info (fst rm)) None of
                       Some e \<Rightarrow> (Inl e, w3)
                     | None \<Rightarrow> render_phase self request response1 w3))))"

definition u_get_response :: "env \<Rightarrow> hook_lists \<Rightarrow> handler_fn" where
  "u_get_response env self request w = dispatch env self False request w"

definition u_get_response_async :: "env \<Rightarrow> hook_lists \<Rightarrow> handler_fn" where
  "u_get_response_async env self request w =
     (case dispatch env self True request w of
        (Inl e, w1) \<Rightarrow> (Inl e, w1)
      | (Inr response, w1) \<Rightarrow>
          if response = PyCoroutine
          then (Inl (Exception RuntimeError ''Response is still a coroutine.''), w1)
          else (Inr response, w1))"

section \<open>base.py: the chain builder\<close>

text \<open>
  \<^verbatim>\<open>self._get_response\<close> is a bound method: it reads the hook lists of the handler
  when it is called, not when the chain is built. A callable built by
  \<^verbatim>\<open>load_middleware\<close> therefore takes the hook lists of the handler as its first
  argument. \<open>logged\<close> holds the debug lines written so far.
\<close>

record loading =
  handler :: "hook_lists \<Rightarrow> handler_fn"
  handler_is_async :: bool
  lists :: hook_lists
  logged :: "event list"

definition middleware_can_sync :: "middleware \<Rightarrow> bool" where
  "middleware_can_sync m = (case sync_capable m of None \<Rightarrow> True | Some b \<Rightarrow> b)"

definition middleware_can_async :: "middleware \<Rightarrow> bool" where
  "middleware_can_async m = (case async_capable m of None \<Rightarrow> False | Some b \<Rightarrow> b)"

text \<open>Lines 66 to 74: the mode a stage runs in, or the error for a stage with no capability.\<close>

definition middleware_is_async :: "bool \<Rightarrow> middleware \<Rightarrow> exception + bool" where
  "middleware_is_async handler_is_async0 m =
     (if \<not> middleware_can_sync m \<and> \<not> middleware_can_async m then
        Inl (Exception RuntimeError
               (''Middleware '' @ mw_path m @ '' must have at least one of ''
                  @ ''sync_capable/async_capable set to True.''))
      else if \<not> handler_is_async0 \<and> middleware_can_sync m then Inr False
      else Inr (middleware_can_async m))"

definition not_used_log :: "env \<Rightarrow> middleware \<Rightarrow> exception \<Rightarrow> event list" where
  "not_used_log env m exc =
     (if DEBUG env then
        (if exc_str exc \<noteq> [] then
           [LoggerDebug (''MiddlewareNotUsed('' @ [CHR 0x27] @ mw_path m @ [CHR 0x27] @ ''): ''
                           @ exc_str exc)]
         else [LoggerDebug (''MiddlewareNotUsed: '' @ [CHR 0x27] @ mw_path m @ [CHR 0x27])])
      else [])"

definition adapt_hook :: "bool \<Rightarrow> 'f hook \<Rightarrow> 'f hook" where
  "adapt_hook is_async h = fst (adapt_method_mode is_async h (hook_iscoroutinefunction h) False [])"

definition register_hooks :: "bool \<Rightarrow> mw_instance \<Rightarrow> hook_lists \<Rightarrow> hook_lists" where
  "register_hooks is_async mw_instance l =
     (let l1 = (case process_view mw_instance of
                  Some h \<Rightarrow> l\<lparr>u_view_middleware := adapt_hook is_async h # u_view_middleware l\<rparr>
                | None \<Rightarrow> l);
          l2 = (case process_template_response mw_instance of
                  Some h \<Rightarrow>
                    l1\<lparr>u_template_response_middleware :=
                          u_template_response_middleware l1 @ [adapt_hook is_async h]\<rparr>
                | None \<Rightarrow> l1)
      in (case process_exception mw_instance of
            Some h \<Rightarrow> l2\<lparr>u_exception_middleware := u_exception_middleware l2 @ [adapt_hook False h]\<rparr>
          | None \<Rightarrow> l2))"

text \<open>One turn of the loop of \<^verbatim>\<open>load_middleware\<close>: the error raised, if any, and the state.\<close>

definition load_step :: "env \<Rightarrow> bool \<Rightarrow> middleware \<Rightarrow> loading \<Rightarrow> exception option \<times> loading" where
  "load_step env is_async m st =
     (case middleware_is_async (handler_is_async st) m of
        Inl e \<Rightarrow> (Some e, st)
      | Inr mode \<Rightarrow>
          (let adapted = adapt_method_mode mode (handler st) (handler_is_async st) (DEBUG env)
                           (''middleware '' @ mw_path m);
               adapted_handler = fst adapted;
               st1 = st\<lparr>logged := logged st @ snd adapted\<rparr>
           in case factory m of
                Raises exc \<Rightarrow>
                  if exc_class exc = MiddlewareNotUsed
                  then (None, st1\<lparr>logged := logged st1 @ not_used_log env m exc\<rparr>)
                  else (Some exc, st1)
              | ReturnsNone \<Rightarrow>
                  (Some (Exception ImproperlyConfigured
                           (''Middleware factory '' @ mw_path m @ '' returned None.'')),
                   st1\<lparr>handler := adapted_handler\<rparr>)
              | Returns mw_instance \<Rightarrow>
                  (None,
                   st1\<lparr>handler := (\<lambda>self. convert_exception_to_response env
                                              (inst_call mw_instance (adapted_handler self))),
                        handler_is_async := mode,
                        lists := register_hooks is_async mw_instance (lists st1)\<rparr>)))"

fun middleware_loop ::
  "env \<Rightarrow> bool \<Rightarrow> middleware list \<Rightarrow> loading \<Rightarrow> exception option \<times> loading" where
  "middleware_loop env is_async [] st = (None, st)"
| "middleware_loop env is_async (m # rest) st =
     (case load_step env is_async m st of
        (Some e, st1) \<Rightarrow> (Some e, st1)
      | (None, st1) \<Rightarrow> middleware_loop env is_async rest st1)"

record base_handler =
  hooks :: hook_lists
  u_middleware_chain :: "(hook_lists \<Rightarrow> handler_fn) option"

definition initial_loading :: "env \<Rightarrow> bool \<Rightarrow> loading" where
  "initial_loading env is_async =
     \<lparr>handler = (\<lambda>self. convert_exception_to_response env
                           (if is_async then u_get_response_async env self
                            else u_get_response env self)),
      handler_is_async = is_async,
      lists = \<lparr>u_view_middleware = [], u_template_response_middleware = [],
               u_exception_middleware = []\<rparr>,
      logged = []\<rparr>"

text \<open>
  \<^verbatim>\<open>load_middleware\<close>: the error raised (if any), the handler object afterwards and
  the debug lines logged. The chain is assigned only when the loop has finished.
\<close>

definition load_middleware ::
  "env \<Rightarrow> bool \<Rightarrow> base_handler \<Rightarrow> exception option \<times> base_handler \<times> event list" where
  "load_middleware env is_async self =
     (case middleware_loop env is_async (rev (MIDDLEWARE env)) (initial_loading env is_async) of
        (Some e, st) \<Rightarrow> (Some e, self\<lparr>hooks := lists st\<rparr>, logged st)
      | (None, st) \<Rightarrow>
          (None,
           self\<lparr>hooks := lists st,
                u_middleware_chain :=
                  Some (fst (adapt_method_mode is_async (handler st) (handler_is_async st)
                               False []))\<rparr>,
           logged st))"

definition new_handler :: base_handler where
  "new_handler =
     \<lparr>hooks = \<lparr>u_view_middleware = [], u_template_response_middleware = [],
               u_exception_middleware = []\<rparr>,
      u_middleware_chain = None\<rparr>"

section \<open>base.py: the entry point\<close>

text \<open>
  What \<^verbatim>\<open>get_response\<close> does with the value of the chain: append the close
  callback of the request, log a response whose status is 400 or more, return it. A
  value without the attribute \<^verbatim>\<open>_resource_closers\<close> raises.
\<close>

definition append_closer :: "closer \<Rightarrow> response \<Rightarrow> response" where
  "append_closer c r =
     Response (status_code r) (reason_phrase r) (content r) (u_resource_closers r @ [c])
       (is_rendered r) (render r) (u_has_been_logged r)"

definition finish_response ::
  "request \<Rightarrow> (exception + pyobj) \<times> world \<Rightarrow> (exception + response) \<times> world" where
  "finish_response request rw =
     (case rw of
        (Inl e, w) \<Rightarrow> (Inl e, w)
      | (Inr (PyResponse r), w) \<Rightarrow>
          (let response = append_closer (RequestClose request) r
           in if status_code response \<ge> 400
              then (Inr (fst (log_response (reason_phrase response @ '': '' @ path request)
                                response w)),
                    snd (log_response (reason_phrase response @ '': '' @ path request)
                           response w))
              else (Inr response, w))
      | (Inr _, w) \<Rightarrow> (Inl (Exception AttributeError ''_resource_closers''), w))"

definition get_response ::
  "env \<Rightarrow> base_handler \<Rightarrow> request \<Rightarrow> world \<Rightarrow> (exception + response) \<times> world" where
  "get_response env self request w =
     (let w1 = set_urlconf (Some (ROOT_URLCONF env)) w in
      case u_middleware_chain self of
        None \<Rightarrow> (Inl (Exception TypeError ''NoneType object is not callable''), w1)
      | Some chain \<Rightarrow> finish_response request (chain (hooks self) request w1))"

definition get_response_async ::
  "env \<Rightarrow> base_handler \<Rightarrow> request \<Rightarrow> world \<Rightarrow> (exception + response) \<times> world" where
  "get_response_async env self request w =
     (let w1 = set_urlconf (Some (ROOT_URLCONF env)) w in
      case u_middleware_chain self of
        None \<Rightarrow> (Inl (Exception TypeError ''NoneType object is not callable''), w1)
      | Some chain \<Rightarrow> finish_response request (chain (hooks self) request w1))"

section \<open>Configuration order of the hooks\<close>

text \<open>
  The hooks of a configuration, in configuration order: those of the stages whose
  factory returns an instance.
\<close>

definition view_hooks_of :: "middleware list \<Rightarrow> view_hook list" where
  "view_hooks_of ms =
     List.map_filter (\<lambda>m. case factory m of Returns i \<Rightarrow> process_view i | _ \<Rightarrow> None) ms"

definition template_hooks_of :: "middleware list \<Rightarrow> template_hook list" where
  "template_hooks_of ms =
     List.map_filter
       (\<lambda>m. case factory m of Returns i \<Rightarrow> process_template_response i | _ \<Rightarrow> None) ms"

definition exception_hooks_of :: "middleware list \<Rightarrow> exception_hook list" where
  "exception_hooks_of ms =
     List.map_filter (\<lambda>m. case factory m of Returns i \<Rightarrow> process_exception i | _ \<Rightarrow> None) ms"

text \<open>A hook declines when it returns a value that is not true; a hook that raises does not.\<close>

definition exception_hook_declines :: "exception_hook \<Rightarrow> request \<Rightarrow> exception \<Rightarrow> bool" where
  "exception_hook_declines h request exc =
     (case hook_call h request exc of Inr v \<Rightarrow> \<not> truthy v | Inl e \<Rightarrow> False)"

definition view_hook_declines :: "view_hook \<Rightarrow> request \<Rightarrow> resolver_match \<Rightarrow> bool" where
  "view_hook_declines h request rm =
     (case hook_call h request (fst rm) (fst (snd rm)) (snd (snd rm)) of
        Inr v \<Rightarrow> \<not> truthy v
      | Inl e \<Rightarrow> False)"

definition called :: "string \<Rightarrow> 'f hook list \<Rightarrow> event list" where
  "called method hs = map (\<lambda>h. hook_event h method) hs"

definition add_trace :: "event list \<Rightarrow> world \<Rightarrow> world" where
  "add_trace es w = w\<lparr>trace := trace w @ es\<rparr>"

section \<open>Concrete requests, views, stages and settings\<close>

definition example_request :: request where
  "example_request = \<lparr>path = ''/a'', path_info = ''/a'', req_urlconf = None\<rparr>"

definition example_world :: world where
  "example_world =
     \<lparr>trace = [], post_parse_error = False, current_urlconf = None, resolver_match = None\<rparr>"

definition plain_response :: "int \<Rightarrow> string \<Rightarrow> response" where
  "plain_response status reason = Response status reason [] [] None None False"

definition example_view :: "bool \<Rightarrow> (exception + pyobj) \<Rightarrow> view" where
  "example_view is_coroutine outcome =
     \<lparr>view_info = \<lparr>is_FunctionType = True, cb_module = ''app.views'', cb_name = ''index'',
                   cb_class_name = ''function''\<rparr>,
      view_iscoroutinefunction = is_coroutine,
      u_non_atomic_requests = [],
      atomic_using = [],
      view_call = (\<lambda>request a k. outcome)\<rparr>"

definition example_hook :: "string \<Rightarrow> 'f \<Rightarrow> 'f hook" where
  "example_hook cls f =
     \<lparr>hook_info = \<lparr>is_FunctionType = False, cb_module = ''app.middleware'', cb_name = ''hook'',
                   cb_class_name = ''method''\<rparr>,
      self_class_name = cls,
      hook_iscoroutinefunction = False,
      hook_call = f\<rparr>"

definition example_instance ::
  "view_hook option \<Rightarrow> template_hook option \<Rightarrow> exception_hook option \<Rightarrow> mw_instance" where
  "example_instance pv ptr pe =
     \<lparr>inst_call = (\<lambda>get_response. get_response),
      process_view = pv, process_template_response = ptr, process_exception = pe\<rparr>"

definition example_middleware ::
  "string \<Rightarrow> bool option \<Rightarrow> bool option \<Rightarrow> factory_outcome \<Rightarrow> middleware" where
  "example_middleware p s a f =
     \<lparr>mw_path = p, sync_capable = s, async_capable = a, factory = f\<rparr>"

definition example_resolver :: "view \<Rightarrow> resolver" where
  "example_resolver v =
     \<lparr>resolve = (\<lambda>p. Inr (v, [], [])),
      resolve_error_handler =
        (\<lambda>status. Inr (\<lambda>request exc.
            Inr (plain_response status
                  (if status = 404 then ''Not Found''
                   else if status = 403 then ''Forbidden''
                   else if status = 400 then ''Bad Request''
                   else ''Internal Server Error''))))\<rparr>"

definition example_env :: "bool \<Rightarrow> bool \<Rightarrow> middleware list \<Rightarrow> (string \<times> bool) list \<Rightarrow> view \<Rightarrow> env" where
  "example_env debug propagate ms dbs v =
     \<lparr>DEBUG = debug, DEBUG_PROPAGATE_EXCEPTIONS = propagate, ROOT_URLCONF = ''app.urls'',
      MIDDLEWARE = ms, connections_settings = dbs,
      get_resolver = (\<lambda>urlconf. example_resolver v),
      technical_404_response = (\<lambda>request exc. plain_response 404 ''Not Found''),
      technical_500_response = (\<lambda>request exc status. plain_response status ''Debug'')\<rparr>"

text \<open>An event that is neither the call of a view nor the call of a pre-invocation hook.\<close>

fun no_view_call :: "event \<Rightarrow> bool" where
  "no_view_call (CallView n a) = False"
| "no_view_call (CallHook c m) = (m \<noteq> ''process_view'')"
| "no_view_call _ = True"



text \<open>The classes that \<open>response_for_exception\<close> answers with a 4xx page of their own.\<close>

definition classified :: "exc_class \<Rightarrow> bool" where
  "classified c =
     (c = Http404 \<or> c = PermissionDenied \<or> c = MultiPartParserError \<or> c = BadRequest
      \<or> is_SuspiciousOperation c)"

text \<open>
  A response renders when forcing it to render does not raise; an error view returns when
  the resolver has it and it gives a response that renders.
\<close>

definition renders :: "response \<Rightarrow> bool" where
  "renders r = (case force_render r of Inr r1 \<Rightarrow> True | Inl e \<Rightarrow> False)"

definition error_view_returns :: "resolver \<Rightarrow> int \<Rightarrow> request \<Rightarrow> exception option \<Rightarrow> bool" where
  "error_view_returns resolver status request exc =
     (case resolve_error_handler resolver status of
        Inl e \<Rightarrow> False
      | Inr callback \<Rightarrow> (case callback request exc of Inl e \<Rightarrow> False | Inr r \<Rightarrow> renders r))"

text \<open>The name \<open>check_response\<close> gives a view in its message.\<close>

definition view_label :: "callable_info \<Rightarrow> string" where
  "view_label c =
     (if is_FunctionType c then ''The view '' @ cb_module c @ ''.'' @ cb_name c
      else ''The view '' @ cb_module c @ ''.'' @ cb_class_name c @ ''.__call__'')"

definition invalid_result_text :: "pyobj \<Rightarrow> string" where
  "invalid_result_text response =
     (if response = PyNone
      then '' didn't return an HttpResponse object. It returned None instead.''
      else '' didn't return an HttpResponse object. It returned an ''
             @ ''unawaited coroutine instead. You may need to add an 'await' ''
             @ ''into your view.'')"

section \<open>The chain as the nesting of the stages\<close>

text \<open>
  The spec describes the pipeline as the nesting of the stage instances, in configuration
  order, around the dispatch engine, each link inside a fault-containment wrapper. These
  definitions follow that description, to be compared with the chain that
  \<open>load_middleware\<close> builds.
\<close>

definition instances_of :: "middleware list \<Rightarrow> mw_instance list" where
  "instances_of ms =
     List.map_filter (\<lambda>m. case factory m of Returns i \<Rightarrow> Some i | _ \<Rightarrow> None) ms"

definition dispatch_engine :: "env \<Rightarrow> bool \<Rightarrow> hook_lists \<Rightarrow> handler_fn" where
  "dispatch_engine env is_async self =
     (if is_async then u_get_response_async env self else u_get_response env self)"

fun nest :: "env \<Rightarrow> mw_instance list \<Rightarrow> (hook_lists \<Rightarrow> handler_fn) \<Rightarrow> hook_lists \<Rightarrow> handler_fn" where
  "nest env [] inner = inner"
| "nest env (i # rest) inner =
     (\<lambda>self. convert_exception_to_response env (inst_call i (nest env rest inner self)))"

definition nested_chain :: "env \<Rightarrow> bool \<Rightarrow> mw_instance list \<Rightarrow> hook_lists \<Rightarrow> handler_fn" where
  "nested_chain env is_async stages =
     nest env stages (\<lambda>self. convert_exception_to_response env (dispatch_engine env is_async self))"

text \<open>What the outermost fault-containment wrapper of the nesting wraps.\<close>

definition outermost :: "env \<Rightarrow> bool \<Rightarrow> mw_instance list \<Rightarrow> hook_lists \<Rightarrow> handler_fn" where
  "outermost env is_async stages self =
     (case stages of
        [] \<Rightarrow> dispatch_engine env is_async self
      | i # rest \<Rightarrow> inst_call i (nested_chain env is_async rest self))"

section \<open>The pages of the classifier\<close>

text \<open>
  What the error handler that the resolver in force gives for a status returns when it is
  called for the request.
\<close>

definition handler_page ::
  "env \<Rightarrow> request \<Rightarrow> world \<Rightarrow> int \<Rightarrow> exception option \<Rightarrow> exception + response" where
  "handler_page env request w status exc =
     (case resolve_error_handler (get_resolver env (current_urlconf w)) status of
        Inl e \<Rightarrow> Inl e
      | Inr callback \<Rightarrow> callback request exc)"

text \<open>
  The table of the spec for the classified kinds. A not-found exception has the page for
  status 404: the diagnostic page under the debug flag, the page of the error handler
  resolved for 404 otherwise. A permission-denied exception has the page of the error
  handler resolved for 403, a malformed body that of the handler resolved for 400. An
  explicit bad request and a suspicious operation have the page for status 400: the
  diagnostic page asked with status 400 under the debug flag, the page of the handler
  resolved for 400 otherwise.
\<close>

definition kind_status :: "exc_class \<Rightarrow> int" where
  "kind_status c = (if c = Http404 then 404 else if c = PermissionDenied then 403 else 400)"

definition kind_page :: "env \<Rightarrow> request \<Rightarrow> exception \<Rightarrow> world \<Rightarrow> exception + response" where
  "kind_page env request exc w =
     (if exc_class exc = Http404 then
        (if DEBUG env then Inr (technical_404_response env request exc)
         else handler_page env request w (kind_status (exc_class exc)) (Some exc))
      else if exc_class exc = PermissionDenied \<or> exc_class exc = MultiPartParserError then
        handler_page env request w (kind_status (exc_class exc)) (Some exc)
      else
        (if DEBUG env
         then Inr (technical_500_response env request exc (kind_status (exc_class exc)))
         else handler_page env request w (kind_status (exc_class exc)) (Some exc)))"

text \<open>
  The line the classifier passes to \<open>log_response\<close> for a classified kind, if any: none
  for a not-found exception and none for a suspicious operation, which goes to the security
  logger.
\<close>

definition kind_line :: "request \<Rightarrow> exception \<Rightarrow> string option" where
  "kind_line request exc =
     (if exc_class exc = PermissionDenied
      then Some (''Forbidden (Permission denied): '' @ path request)
      else if exc_class exc = MultiPartParserError
      then Some (''Bad request (Unable to parse request body): '' @ path request)
      else if exc_class exc = BadRequest then Some (exc_str exc @ '': '' @ path request)
      else None)"

text \<open>
  The page for an exception of no classified kind: the diagnostic page under the debug
  flag, the page of the error handler resolved for 500 otherwise.
\<close>

definition uncaught_page :: "env \<Rightarrow> request \<Rightarrow> exception \<Rightarrow> world \<Rightarrow> exception + response" where
  "uncaught_page env request exc w =
     (if DEBUG env then Inr (technical_500_response env request exc 500)
      else handler_page env request w 500 None)"

text \<open>
  The response as the entry point hands it to its caller: the close callback of the request
  appended, and the mark of \<open>log_response\<close> when the status is 400 or more.
\<close>

definition delivered :: "request \<Rightarrow> response \<Rightarrow> response" where
  "delivered request r =
     Response (status_code r) (reason_phrase r) (content r)
       (u_resource_closers r @ [RequestClose request]) (is_rendered r) (render r)
       (u_has_been_logged r \<or> 400 \<le> status_code r)"

definition c1_env :: "bool \<Rightarrow> exc_class \<Rightarrow> env" where
  "c1_env propagate c =
     example_env False propagate [] [] (example_view False (Inl (Exception c ''raised by the view'')))"

definition c10_hook_A :: exception_hook where
  "c10_hook_A = example_hook ''A'' (\<lambda>request exc. Inr (PyResponse (plain_response 200 ''OK'')))"

definition c10_hook_B :: exception_hook where
  "c10_hook_B = example_hook ''B'' (\<lambda>request exc. Inr PyNone)"

definition c10_env :: env where
  "c10_env =
     example_env False False
       [example_middleware ''app.A'' None None
          (Returns (example_instance None None (Some c10_hook_A))),
        example_middleware ''app.B'' None None
          (Returns (example_instance None None (Some c10_hook_B)))]
       [] (example_view False (Inr PyNone))"

text \<open>A deferred response whose rendering gives the content \<open>c\<close>.\<close>

definition deferred :: "string \<Rightarrow> response" where
  "deferred c =
     Response 200 ''OK'' c [] (Some False)
       (Some (Inr (Response 200 ''OK'' c [] (Some True) None False))) False"

text \<open>A post-render hook that marks the content of the response with its own tag.\<close>

definition tagging_hook :: "string \<Rightarrow> template_hook" where
  "tagging_hook tag =
     example_hook tag
       (\<lambda>request response.
          case response of
            PyResponse r \<Rightarrow> Inr (PyResponse (deferred (content r @ tag)))
          | other \<Rightarrow> Inr other)"

definition c2_env :: env where
  "c2_env =
     example_env False False
       [example_middleware ''app.A'' None None
          (Returns (example_instance None (Some (tagging_hook ''A'')) None)),
        example_middleware ''app.B'' None None
          (Returns (example_instance None (Some (tagging_hook ''B'')) None))]
       [] (example_view False (Inr (PyResponse (deferred ''v''))))"

definition c3_env :: "bool \<Rightarrow> env" where
  "c3_env propagate = example_env False propagate [] [] (example_view False (Inr PyNone))"

text \<open>
  Stage \<open>A\<close> declares both capabilities, stage \<open>B\<close> only the cooperative one;
  \<open>A\<close> is configured first.
\<close>

definition c4_stage_A :: middleware where
  "c4_stage_A = example_middleware ''app.A'' (Some True) (Some True)
                  (Returns (example_instance None None None))"

definition c4_stage_B :: middleware where
  "c4_stage_B = example_middleware ''app.B'' (Some False) (Some True)
                  (Returns (example_instance None None None))"

definition c4_env :: env where
  "c4_env = example_env True False [c4_stage_A, c4_stage_B] [] (example_view False (Inr PyNone))"

definition c5_hook :: "string \<Rightarrow> pyobj \<Rightarrow> view_hook" where
  "c5_hook cls v = example_hook cls (\<lambda>request callback a k. Inr v)"

definition c5_env :: env where
  "c5_env =
     example_env False False
       [example_middleware ''app.A'' None None
          (Returns (example_instance (Some (c5_hook ''A'' PyNone)) None None)),
        example_middleware ''app.B'' None None
          (Returns (example_instance
             (Some (c5_hook ''B'' (PyResponse (plain_response 200 ''OK'')))) None None)),
        example_middleware ''app.C'' None None
          (Returns (example_instance
             (Some (c5_hook ''C'' (PyResponse (plain_response 302 ''Found'')))) None None))]
       [] (example_view False (Inr (PyResponse (plain_response 201 ''Created''))))"

text \<open>
  Stage \<open>H\<close> has a pre-invocation hook that answers with a deferred response, stage
  \<open>T\<close> a post-render hook that tags the content.
\<close>

definition c5_deferred_env :: env where
  "c5_deferred_env =
     example_env False False
       [example_middleware ''app.H'' None None
          (Returns (example_instance
             (Some (c5_hook ''H'' (PyResponse (deferred ''hook'')))) None None)),
        example_middleware ''app.T'' None None
          (Returns (example_instance None (Some (tagging_hook ''T'')) None))]
       [] (example_view False (Inr (PyResponse (plain_response 201 ''Created''))))"

definition c6_view :: view where
  "c6_view = example_view True (Inr (PyResponse (plain_response 200 ''OK'')))"

definition c6_env :: "middleware list \<Rightarrow> env" where
  "c6_env ms = example_env False False ms [(''default'', True)] c6_view"

definition c6_stage :: middleware where
  "c6_stage =
     example_middleware ''app.Gate'' None None
       (Returns (example_instance
          (Some (example_hook ''Gate''
                   (\<lambda>request callback a k. Inr (PyResponse (plain_response 302 ''Found'')))))
          None None))"



definition c8_env_no_capability :: env where
  "c8_env_no_capability =
     example_env False False
       [example_middleware ''app.Plain'' None None (Returns (example_instance None None None)),
        example_middleware ''app.Neither'' (Some False) (Some False)
          (Returns (example_instance None None None))]
       [] (example_view False (Inr PyNone))"

definition c8_env_returns_none :: env where
  "c8_env_returns_none =
     example_env False False
       [example_middleware ''app.Nothing'' None None ReturnsNone,
        example_middleware ''app.Plain'' None None (Returns (example_instance None None None))]
       [] (example_view False (Inr PyNone))"

definition c9_env :: "int \<Rightarrow> string \<Rightarrow> env" where
  "c9_env status reason =
     example_env False False [] [] (example_view False (Inr (PyResponse (plain_response status reason))))"

definition c9_denied_env :: env where
  "c9_denied_env =
     example_env False False [] []
       (example_view False (Inl (Exception PermissionDenied ''no access'')))"

section \<open>Order of the hook lists\<close>

lemma adapt_hook_same: "adapt_hook is_async h = h"
  by (simp add: adapt_hook_def adapt_method_mode_def sync_to_async_def async_to_sync_def)

lemma map_filter_rev: "List.map_filter f (rev xs) = rev (List.map_filter f xs)"
  by (simp add: List.map_filter_def rev_map rev_filter)

lemma hooks_of_Cons:
  "exception_hooks_of (m # ms) = exception_hooks_of [m] @ exception_hooks_of ms"
  "template_hooks_of (m # ms) = template_hooks_of [m] @ template_hooks_of ms"
  "view_hooks_of (m # ms) = view_hooks_of [m] @ view_hooks_of ms"
  by (simp_all add: exception_hooks_of_def template_hooks_of_def view_hooks_of_def
      List.map_filter_def)

lemma hooks_of_rev:
  "exception_hooks_of (rev ms) = rev (exception_hooks_of ms)"
  "template_hooks_of (rev ms) = rev (template_hooks_of ms)"
  "view_hooks_of (rev ms) = rev (view_hooks_of ms)"
  by (simp_all add: exception_hooks_of_def template_hooks_of_def view_hooks_of_def map_filter_rev)

lemma load_step_lists:
  assumes "load_step env is_async m st = (None, st1)"
  shows "u_exception_middleware (lists st1)
           = u_exception_middleware (lists st) @ exception_hooks_of [m]
       \<and> u_template_response_middleware (lists st1)
           = u_template_response_middleware (lists st) @ template_hooks_of [m]
       \<and> u_view_middleware (lists st1) = rev (view_hooks_of [m]) @ u_view_middleware (lists st)"
  using assms
  by (auto simp: load_step_def Let_def register_hooks_def adapt_hook_same exception_hooks_of_def
      template_hooks_of_def view_hooks_of_def List.map_filter_simps
      split: sum.splits factory_outcome.splits if_splits option.splits)

lemma middleware_loop_lists:
  "middleware_loop env is_async ms st = (None, st1) \<Longrightarrow>
     u_exception_middleware (lists st1) = u_exception_middleware (lists st) @ exception_hooks_of ms
   \<and> u_template_response_middleware (lists st1)
       = u_template_response_middleware (lists st) @ template_hooks_of ms
   \<and> u_view_middleware (lists st1) = rev (view_hooks_of ms) @ u_view_middleware (lists st)"
proof (induction ms arbitrary: st)
  case Nil
  then show ?case
    by (simp add: exception_hooks_of_def template_hooks_of_def view_hooks_of_def)
next
  case (Cons m ms)
  from Cons.prems obtain st2 where s: "load_step env is_async m st = (None, st2)"
    and l: "middleware_loop env is_async ms st2 = (None, st1)"
    by (auto split: prod.splits option.splits)
  from load_step_lists[OF s] Cons.IH[OF l] show ?case
    by (simp add: hooks_of_Cons[of m ms])
qed

lemma load_middleware_loop:
  assumes "load_middleware env is_async self = (None, h, l)"
  obtains st where
    "middleware_loop env is_async (rev (MIDDLEWARE env)) (initial_loading env is_async) = (None, st)"
    and "hooks h = lists st"
    and "u_middleware_chain h
           = Some (fst (adapt_method_mode is_async (handler st) (handler_is_async st) False []))"
  using assms
  by (auto simp: load_middleware_def split: prod.splits option.splits)

lemma load_middleware_lists:
  assumes "load_middleware env is_async self = (None, h, l)"
  shows "u_exception_middleware (hooks h) = rev (exception_hooks_of (MIDDLEWARE env))"
    and "u_template_response_middleware (hooks h) = rev (template_hooks_of (MIDDLEWARE env))"
    and "u_view_middleware (hooks h) = view_hooks_of (MIDDLEWARE env)"
proof -
  from assms obtain st where
    l: "middleware_loop env is_async (rev (MIDDLEWARE env)) (initial_loading env is_async)
          = (None, st)"
    and h: "hooks h = lists st"
    by (rule load_middleware_loop)
  from middleware_loop_lists[OF l]
  show "u_exception_middleware (hooks h) = rev (exception_hooks_of (MIDDLEWARE env))"
    and "u_template_response_middleware (hooks h) = rev (template_hooks_of (MIDDLEWARE env))"
    and "u_view_middleware (hooks h) = view_hooks_of (MIDDLEWARE env)"
    by (simp_all add: h hooks_of_rev initial_loading_def)
qed

lemma load_result:
  "fst (load_middleware env is_async self) = None \<Longrightarrow>
   load_middleware env is_async self
     = (None, fst (snd (load_middleware env is_async self)),
        snd (snd (load_middleware env is_async self)))"
  by (metis prod.collapse)

lemmas example_defs = example_env_def example_middleware_def example_instance_def example_hook_def
  example_view_def example_resolver_def plain_response_def example_world_def example_request_def

lemmas load_defs = load_middleware_def load_step_def middleware_is_async_def middleware_can_sync_def
  middleware_can_async_def adapt_method_mode_def sync_to_async_def async_to_sync_def
  register_hooks_def adapt_hook_def initial_loading_def not_used_log_def new_handler_def

subsection \<open>Exceptions that are not classified\<close>

lemma unclassified_branch:
  "\<not> classified (exc_class exc) \<Longrightarrow>
   response_for_exception env request exc w
     = rendered_result
         (logged_result (\<lambda>response. reason_phrase response @ '': '' @ path request)
            (handle_uncaught_exception env request (get_resolver env (current_urlconf w)) exc,
             emit GotRequestException w))"
  by (simp add: response_for_exception_def classified_def Let_def)

lemma unclassified_propagate:
  "\<not> classified (exc_class exc) \<Longrightarrow> DEBUG_PROPAGATE_EXCEPTIONS env \<Longrightarrow>
   response_for_exception env request exc w = (Inl exc, emit GotRequestException w)"
  by (simp add: unclassified_branch handle_uncaught_exception_def logged_result_def
      rendered_result_def)

lemmas dispatch_defs = u_get_response_def u_get_response_async_def dispatch_def resolve_request_def
  call_view_def make_view_atomic_def with_exception_middleware_def render_phase_def has_render_def
  call_render_def check_response_def view_name_of_def hook_event_def emit_def set_urlconf_def
  transaction_atomic_def

subsection \<open>Logging a response\<close>

lemma mark_logged_again: "u_has_been_logged r \<Longrightarrow> mark_logged r = r"
  by (cases r) (simp add: mark_logged_def)

lemma log_response_fst: "fst (log_response message r w) = mark_logged r"
  by (simp add: log_response_def mark_logged_again)

lemma log_response_snd:
  "snd (log_response message r w)
     = (if u_has_been_logged r then w else emit (LogResponse message (status_code r)) w)"
  by (simp add: log_response_def)

lemma logged_result_Inr:
  "logged_result message (Inr r, w)
     = (Inr (mark_logged r),
        if u_has_been_logged r then w else emit (LogResponse (message r) (status_code r)) w)"
  by (simp add: logged_result_def log_response_fst log_response_snd)

lemma logged_result_Inl: "logged_result message (Inl e, w) = (Inl e, w)"
  by (simp add: logged_result_def)

lemma finish_response_response:
  "finish_response request (Inr (PyResponse r), w)
     = (Inr (delivered request r),
        if 400 \<le> status_code r \<and> \<not> u_has_been_logged r
        then emit (LogResponse (reason_phrase r @ '': '' @ path request) (status_code r)) w
        else w)"
  by (cases r)
    (simp add: finish_response_def append_closer_def delivered_def log_response_def
      mark_logged_def Let_def)

lemma finish_response_raise: "finish_response request (Inl e, w) = (Inl e, w)"
  by (simp add: finish_response_def)

subsection \<open>The chain of a loaded handler\<close>

lemma instances_of_Cons: "instances_of (m # ms) = instances_of [m] @ instances_of ms"
  by (simp add: instances_of_def List.map_filter_def)

lemma instances_of_rev: "instances_of (rev ms) = rev (instances_of ms)"
  by (simp add: instances_of_def map_filter_rev)

lemma rev_instances_single: "rev (instances_of [m]) = instances_of [m]"
  by (simp add: instances_of_def List.map_filter_simps split: option.splits)

lemma nest_append: "nest env (xs @ ys) inner = nest env xs (nest env ys inner)"
  by (induction xs) simp_all

lemma load_step_handler:
  assumes "load_step env is_async m st = (None, st1)"
  shows "handler st1 = nest env (instances_of [m]) (handler st)"
  using assms
  by (auto simp: load_step_def Let_def adapt_method_mode_def sync_to_async_def
      async_to_sync_def instances_of_def List.map_filter_simps
      split: sum.splits factory_outcome.splits if_splits)

lemma middleware_loop_handler:
  "middleware_loop env is_async ms st = (None, st1) \<Longrightarrow>
   handler st1 = nest env (rev (instances_of ms)) (handler st)"
proof (induction ms arbitrary: st)
  case Nil
  then show ?case by (simp add: instances_of_def)
next
  case (Cons m ms)
  from Cons.prems obtain st2 where s: "load_step env is_async m st = (None, st2)"
    and l: "middleware_loop env is_async ms st2 = (None, st1)"
    by (auto split: prod.splits option.splits)
  from Cons.IH[OF l] load_step_handler[OF s] show ?case
    by (simp add: instances_of_Cons[of m ms] nest_append rev_instances_single)
qed

lemma loaded_chain:
  assumes "load_middleware env is_async self = (None, h, l)"
  shows "u_middleware_chain h = Some (nested_chain env is_async (instances_of (MIDDLEWARE env)))"
proof -
  from assms obtain st where
    l: "middleware_loop env is_async (rev (MIDDLEWARE env)) (initial_loading env is_async)
          = (None, st)"
    and c: "u_middleware_chain h
              = Some (fst (adapt_method_mode is_async (handler st) (handler_is_async st) False []))"
    by (rule load_middleware_loop)
  have "fst (adapt_method_mode is_async (handler st) (handler_is_async st) False [])
          = handler st"
    by (simp add: adapt_method_mode_def sync_to_async_def async_to_sync_def)
  moreover have "handler (initial_loading env is_async)
                   = (\<lambda>self. convert_exception_to_response env (dispatch_engine env is_async self))"
    by (simp add: initial_loading_def dispatch_engine_def)
  ultimately show ?thesis
    using middleware_loop_handler[OF l] c
    by (simp add: nested_chain_def instances_of_rev)
qed

lemma nested_chain_outermost:
  "nested_chain env is_async stages self
     = convert_exception_to_response env (outermost env is_async stages self)"
  by (cases stages) (simp_all add: nested_chain_def outermost_def)

subsection \<open>The answers of the classifier\<close>

lemma handle_uncaught_page:
  "\<not> DEBUG_PROPAGATE_EXCEPTIONS env \<Longrightarrow>
   handle_uncaught_exception env request (get_resolver env (current_urlconf w)) exc
     = uncaught_page env request exc w"
  by (simp add: handle_uncaught_exception_def uncaught_page_def handler_page_def)

lemma unclassified_answer:
  assumes "\<not> classified (exc_class exc)" and "\<not> DEBUG_PROPAGATE_EXCEPTIONS env"
    and "uncaught_page env request exc w = Inr p" and "force_render (mark_logged p) = Inr r"
  shows "response_for_exception env request exc w
           = (Inr r,
              if u_has_been_logged p then emit GotRequestException w
              else emit (LogResponse (reason_phrase p @ '': '' @ path request) (status_code p))
                     (emit GotRequestException w))"
  using assms(3,4)
  by (simp add: unclassified_branch[OF assms(1)] handle_uncaught_page[OF assms(2)]
      logged_result_Inr rendered_result_def)

lemma get_exception_response_handler_page:
  "handler_page env request w status (Some exc) = Inr p \<Longrightarrow>
   current_urlconf w2 = current_urlconf w \<Longrightarrow>
   get_exception_response env request (get_resolver env (current_urlconf w)) status exc w2
     = (Inr p, w2)"
  by (auto simp: get_exception_response_def handler_page_def split: sum.splits)

lemma classified_answer:
  assumes "classified (exc_class exc)"
    and "kind_page env request exc w = Inr p"
    and "force_render (if kind_line request exc = None then p else mark_logged p) = Inr r"
  shows "fst (response_for_exception env request exc w) = Inr r"
proof -
  let ?resolver = "get_resolver env (current_urlconf w)"
  consider (nf) "exc_class exc = Http404" | (pd) "exc_class exc = PermissionDenied"
    | (mp) "exc_class exc = MultiPartParserError" | (br) "exc_class exc = BadRequest"
    | (so) "is_SuspiciousOperation (exc_class exc)" "exc_class exc \<noteq> Http404"
        "exc_class exc \<noteq> PermissionDenied" "exc_class exc \<noteq> MultiPartParserError"
        "exc_class exc \<noteq> BadRequest"
    using assms(1) by (auto simp: classified_def)
  then show ?thesis
  proof cases
    case nf
    show ?thesis
    proof (cases "DEBUG env")
      case True
      with nf assms(2,3) show ?thesis
        by (simp add: response_for_exception_def Let_def kind_page_def kind_line_def
            rendered_result_def)
    next
      case False
      with nf assms(2) have "handler_page env request w 404 (Some exc) = Inr p"
        by (simp add: kind_page_def kind_status_def)
      from get_exception_response_handler_page[OF this, of w] False nf assms(3) show ?thesis
        by (simp add: response_for_exception_def Let_def kind_line_def rendered_result_def)
    qed
  next
    case pd
    with assms(2) have "handler_page env request w 403 (Some exc) = Inr p"
      by (simp add: kind_page_def kind_status_def)
    from get_exception_response_handler_page[OF this, of w] pd assms(3) show ?thesis
      by (simp add: response_for_exception_def Let_def kind_line_def rendered_result_def
          logged_result_Inr)
  next
    case mp
    with assms(2) have "handler_page env request w 400 (Some exc) = Inr p"
      by (simp add: kind_page_def kind_status_def)
    from get_exception_response_handler_page[OF this, of w] mp assms(3) show ?thesis
      by (simp add: response_for_exception_def Let_def kind_line_def rendered_result_def
          logged_result_Inr)
  next
    case br
    show ?thesis
    proof (cases "DEBUG env")
      case True
      with br assms(2,3) show ?thesis
        by (simp add: response_for_exception_def Let_def kind_page_def kind_status_def
            kind_line_def rendered_result_def logged_result_Inr)
    next
      case False
      with br assms(2) have "handler_page env request w 400 (Some exc) = Inr p"
        by (simp add: kind_page_def kind_status_def)
      from get_exception_response_handler_page[OF this, of w] False br assms(3) show ?thesis
        by (simp add: response_for_exception_def Let_def kind_line_def rendered_result_def
            logged_result_Inr)
    qed
  next
    case so
    let ?w1 = "if is_limit_class (exc_class exc) then w\<lparr>post_parse_error := True\<rparr> else w"
    let ?w2 = "emit (SecurityLog (''django.security.'' @ class_name (exc_class exc))
                       (exc_str exc) 400) ?w1"
    have u: "current_urlconf ?w2 = current_urlconf w"
      by (simp add: emit_def)
    show ?thesis
    proof (cases "DEBUG env")
      case True
      with so assms(2,3) show ?thesis
        by (simp add: response_for_exception_def Let_def kind_page_def kind_status_def
            kind_line_def rendered_result_def)
    next
      case False
      with so assms(2) have "handler_page env request w 400 (Some exc) = Inr p"
        by (simp add: kind_page_def kind_status_def)
      from get_exception_response_handler_page[OF this u] False so assms(3) show ?thesis
        by (simp add: response_for_exception_def Let_def kind_line_def rendered_result_def)
    qed
  qed
qed

subsection \<open>Exceptions of the application\<close>

lemma wrapper_classified:
  assumes "f request w1 = (Inl exc, w2)" and "classified (exc_class exc)"
    and "kind_page env request exc w2 = Inr p"
    and "force_render (if kind_line request exc = None then p else mark_logged p) = Inr r"
  shows "fst (convert_exception_to_response env f request w1) = Inr (PyResponse r)"
  using assms(1) classified_answer[OF assms(2,3,4)]
  by (cases "response_for_exception env request exc w2")
    (simp add: convert_exception_to_response_def)

lemma wrapper_uncaught:
  assumes "f request w1 = (Inl exc, w2)" and "\<not> classified (exc_class exc)"
    and "\<not> DEBUG_PROPAGATE_EXCEPTIONS env"
    and "uncaught_page env request exc w2 = Inr p" and "force_render (mark_logged p) = Inr r"
  shows "fst (convert_exception_to_response env f request w1) = Inr (PyResponse r)"
  using assms(1) unclassified_answer[OF assms(2,3,4,5)]
  by (simp add: convert_exception_to_response_def)

lemma wrapper_raises_again:
  assumes "f request w1 = (Inl exc, w2)"
    and "\<not> classified (exc_class exc)" and "DEBUG_PROPAGATE_EXCEPTIONS env"
  shows "convert_exception_to_response env f request w1 = (Inl exc, emit GotRequestException w2)"
  using assms(1) unclassified_propagate[OF assms(2,3), of request w2]
  by (simp add: convert_exception_to_response_def)

lemma finish_response_fst:
  "fst rw = Inr (PyResponse r) \<Longrightarrow> fst (finish_response request rw) = Inr (delivered request r)"
  by (cases rw) (simp add: finish_response_response)

text \<open>
  C1, as the code has it. The chain of a loaded handler is the nesting of the stages in
  use around the dispatch engine, every link inside a fault-containment wrapper. When the
  callable \<open>f\<close> inside a wrapper raises \<open>exc\<close>, the wrapper answers as follows. For
  \<open>exc\<close> of a classified kind, whatever the propagate override says, with the page of
  that kind (the page for status 404 for a not-found exception, the page of the handler
  for 403 for a permission-denied exception, the page for status 400 for the other kinds),
  marked as logged when the kind has a line for the request log, and force-rendered. For
  \<open>exc\<close> of no classified kind while the override is off, with the page for uncaught
  exceptions, marked as logged and force-rendered. Both hold provided the page is returned
  and renders. For \<open>exc\<close> of no classified kind while the override is on, the wrapper
  raises \<open>exc\<close> again. The entry points do the same with what the outermost link raises:
  their caller receives that response, with the close callback of the request appended,
  in the first two cases and the exception in the third.
\<close>

theorem exceptions_become_responses:
  assumes loaded: "load_middleware env is_async self = (None, h, l)"
  shows "u_middleware_chain h = Some (nested_chain env is_async (instances_of (MIDDLEWARE env)))
       \<and> (\<forall>f exc w1 w2.
            f request w1 = (Inl exc, w2) \<longrightarrow>
            (\<forall>p r. classified (exc_class exc) \<and> kind_page env request exc w2 = Inr p
                    \<and> force_render (if kind_line request exc = None then p else mark_logged p)
                        = Inr r
               \<longrightarrow> fst (convert_exception_to_response env f request w1) = Inr (PyResponse r))
            \<and> (\<forall>p r. \<not> classified (exc_class exc) \<and> \<not> DEBUG_PROPAGATE_EXCEPTIONS env
                      \<and> uncaught_page env request exc w2 = Inr p
                      \<and> force_render (mark_logged p) = Inr r
                 \<longrightarrow> fst (convert_exception_to_response env f request w1) = Inr (PyResponse r))
            \<and> (\<not> classified (exc_class exc) \<and> DEBUG_PROPAGATE_EXCEPTIONS env \<longrightarrow>
                 convert_exception_to_response env f request w1
                   = (Inl exc, emit GotRequestException w2)))
       \<and> (\<forall>exc w2.
            outermost env is_async (instances_of (MIDDLEWARE env)) (hooks h) request
                (set_urlconf (Some (ROOT_URLCONF env)) w) = (Inl exc, w2) \<longrightarrow>
            (\<forall>p r. classified (exc_class exc) \<and> kind_page env request exc w2 = Inr p
                    \<and> force_render (if kind_line request exc = None then p else mark_logged p)
                        = Inr r
               \<longrightarrow> fst (get_response env h request w) = Inr (delivered request r)
                   \<and> fst (get_response_async env h request w) = Inr (delivered request r))
            \<and> (\<forall>p r. \<not> classified (exc_class exc) \<and> \<not> DEBUG_PROPAGATE_EXCEPTIONS env
                      \<and> uncaught_page env request exc w2 = Inr p
                      \<and> force_render (mark_logged p) = Inr r
                 \<longrightarrow> fst (get_response env h request w) = Inr (delivered request r)
                     \<and> fst (get_response_async env h request w) = Inr (delivered request r))
            \<and> (\<not> classified (exc_class exc) \<and> DEBUG_PROPAGATE_EXCEPTIONS env \<longrightarrow>
                 get_response env h request w = (Inl exc, emit GotRequestException w2)
                 \<and> get_response_async env h request w
                     = (Inl exc, emit GotRequestException w2)))"
proof -
  let ?stages = "instances_of (MIDDLEWARE env)"
  let ?w1 = "set_urlconf (Some (ROOT_URLCONF env)) w"
  let ?f = "outermost env is_async ?stages (hooks h)"
  note c = loaded_chain[OF loaded]
  have entry:
    "get_response env h request w
       = finish_response request (convert_exception_to_response env ?f request ?w1)"
    "get_response_async env h request w
       = finish_response request (convert_exception_to_response env ?f request ?w1)"
    by (simp_all add: get_response_def get_response_async_def c Let_def nested_chain_outermost)
  have layer: "(\<forall>p r. classified (exc_class exc) \<and> kind_page env request exc w2 = Inr p
                    \<and> force_render (if kind_line request exc = None then p else mark_logged p)
                        = Inr r
               \<longrightarrow> fst (convert_exception_to_response env f request w1) = Inr (PyResponse r))
            \<and> (\<forall>p r. \<not> classified (exc_class exc) \<and> \<not> DEBUG_PROPAGATE_EXCEPTIONS env
                      \<and> uncaught_page env request exc w2 = Inr p
                      \<and> force_render (mark_logged p) = Inr r
                 \<longrightarrow> fst (convert_exception_to_response env f request w1) = Inr (PyResponse r))
            \<and> (\<not> classified (exc_class exc) \<and> DEBUG_PROPAGATE_EXCEPTIONS env \<longrightarrow>
                 convert_exception_to_response env f request w1
                   = (Inl exc, emit GotRequestException w2))"
    if "f request w1 = (Inl exc, w2)" for f exc w1 w2
    using wrapper_classified[of f request w1 exc w2 env, OF that]
      wrapper_uncaught[of f request w1 exc w2 env, OF that]
      wrapper_raises_again[of f request w1 exc w2 env, OF that]
    by blast
  have top: "(\<forall>p r. classified (exc_class exc) \<and> kind_page env request exc w2 = Inr p
                    \<and> force_render (if kind_line request exc = None then p else mark_logged p)
                        = Inr r
               \<longrightarrow> fst (get_response env h request w) = Inr (delivered request r)
                   \<and> fst (get_response_async env h request w) = Inr (delivered request r))
            \<and> (\<forall>p r. \<not> classified (exc_class exc) \<and> \<not> DEBUG_PROPAGATE_EXCEPTIONS env
                      \<and> uncaught_page env request exc w2 = Inr p
                      \<and> force_render (mark_logged p) = Inr r
                 \<longrightarrow> fst (get_response env h request w) = Inr (delivered request r)
                     \<and> fst (get_response_async env h request w) = Inr (delivered request r))
            \<and> (\<not> classified (exc_class exc) \<and> DEBUG_PROPAGATE_EXCEPTIONS env \<longrightarrow>
                 get_response env h request w = (Inl exc, emit GotRequestException w2)
                 \<and> get_response_async env h request w
                     = (Inl exc, emit GotRequestException w2))"
    if raised: "?f request ?w1 = (Inl exc, w2)" for exc w2
    using layer[of ?f ?w1 exc w2, OF raised]
    by (auto simp: entry finish_response_fst finish_response_raise)
  from c layer top show ?thesis by blast
qed

theorem exceptions_become_responses_witness:
  "fst (get_response (c1_env False (OtherError ''KeyError''))
          (fst (snd (load_middleware (c1_env False (OtherError ''KeyError'')) False new_handler)))
          example_request example_world)
     = Inr (Response 500 ''Internal Server Error'' [] [RequestClose example_request] None None True)
   \<and> fst (get_response (c1_env False Http404)
          (fst (snd (load_middleware (c1_env False Http404) False new_handler)))
          example_request example_world)
     = Inr (Response 404 ''Not Found'' [] [RequestClose example_request] None None True)
   \<and> get_response (c1_env True (OtherError ''KeyError''))
       (fst (snd (load_middleware (c1_env True (OtherError ''KeyError'')) False new_handler)))
       example_request example_world
     = (Inl (Exception (OtherError ''KeyError'') ''raised by the view''),
        example_world
          \<lparr>trace := [CallView ''app.views.index'' [], GotRequestException],
           current_urlconf := Some ''app.urls'',
           resolver_match :=
             Some (example_view False
                     (Inl (Exception (OtherError ''KeyError'') ''raised by the view'')), [], [])\<rparr>)"
proof -
  let ?w2 = "\<lambda>c. example_world
          \<lparr>trace := [CallView ''app.views.index'' []],
           current_urlconf := Some ''app.urls'',
           resolver_match :=
             Some (example_view False (Inl (Exception c ''raised by the view'')), [], [])\<rparr>"
  have loaded: "fst (load_middleware (c1_env p c) False new_handler) = None" for p c
    by (simp add: c1_env_def example_defs load_defs Let_def)
  have raised: "outermost (c1_env p c) False (instances_of (MIDDLEWARE (c1_env p c)))
          (hooks (fst (snd (load_middleware (c1_env p c) False new_handler))))
          example_request
          (set_urlconf (Some (ROOT_URLCONF (c1_env p c))) example_world)
        = (Inl (Exception c ''raised by the view''), ?w2 c)" for p c
    by (simp add: c1_env_def example_defs load_defs dispatch_defs Let_def outermost_def
        instances_of_def dispatch_engine_def)
  note key_off = exceptions_become_responses[
      OF load_result[OF loaded[of False "OtherError ''KeyError''"]],
      of example_request example_world, THEN conjunct2, THEN conjunct2, rule_format,
      OF raised[of False "OtherError ''KeyError''"]]
  note missing = exceptions_become_responses[
      OF load_result[OF loaded[of False Http404]],
      of example_request example_world, THEN conjunct2, THEN conjunct2, rule_format,
      OF raised[of False Http404]]
  note key_on = exceptions_become_responses[
      OF load_result[OF loaded[of True "OtherError ''KeyError''"]],
      of example_request example_world, THEN conjunct2, THEN conjunct2, rule_format,
      OF raised[of True "OtherError ''KeyError''"]]
  have a: "fst (get_response (c1_env False (OtherError ''KeyError''))
          (fst (snd (load_middleware (c1_env False (OtherError ''KeyError'')) False new_handler)))
          example_request example_world)
     = Inr (delivered example_request (mark_logged (plain_response 500 ''Internal Server Error'')))"
    by (rule key_off[THEN conjunct2, THEN conjunct1, rule_format,
          of "plain_response 500 ''Internal Server Error''", THEN conjunct1])
      (simp add: classified_def c1_env_def example_env_def example_resolver_def
        uncaught_page_def handler_page_def force_render_def mark_logged_def plain_response_def)
  have b: "fst (get_response (c1_env False Http404)
          (fst (snd (load_middleware (c1_env False Http404) False new_handler)))
          example_request example_world)
     = Inr (delivered example_request (plain_response 404 ''Not Found''))"
    by (rule missing[THEN conjunct1, rule_format,
          of "plain_response 404 ''Not Found''", THEN conjunct1])
      (simp add: classified_def c1_env_def example_env_def example_resolver_def kind_page_def
        kind_status_def kind_line_def handler_page_def force_render_def plain_response_def)
  have c: "get_response (c1_env True (OtherError ''KeyError''))
       (fst (snd (load_middleware (c1_env True (OtherError ''KeyError'')) False new_handler)))
       example_request example_world
     = (Inl (Exception (OtherError ''KeyError'') ''raised by the view''),
        emit GotRequestException (?w2 (OtherError ''KeyError'')))"
    by (rule key_on[THEN conjunct2, THEN conjunct2, rule_format, THEN conjunct1])
      (simp add: classified_def c1_env_def example_env_def)
  from a b c show ?thesis
    by (simp add: delivered_def mark_logged_def plain_response_def emit_def example_world_def)
qed

text \<open>
  The claim as stated fails: with the propagate override on, a view that raises
  \<^verbatim>\<open>PermissionDenied\<close> is answered with the response of the error handler for
  status 403; the exception is not raised again.
\<close>

theorem propagate_keeps_classified_counterexample:
  "DEBUG_PROPAGATE_EXCEPTIONS (c1_env True PermissionDenied)
   \<and> get_response (c1_env True PermissionDenied)
       (fst (snd (load_middleware (c1_env True PermissionDenied) False new_handler)))
       example_request example_world
     = (Inr (Response 403 ''Forbidden'' [] [RequestClose example_request] None None True),
        example_world
          \<lparr>trace := [CallView ''app.views.index'' [],
                     LogResponse ''Forbidden (Permission denied): /a'' 403],
           current_urlconf := Some ''app.urls'',
           resolver_match :=
             Some (example_view False (Inl (Exception PermissionDenied ''raised by the view'')),
                   [], [])\<rparr>)"
  by (simp add: c1_env_def example_defs load_defs dispatch_defs Let_def get_response_def
      finish_response_def append_closer_def convert_exception_to_response_def
      response_for_exception_def rendered_result_def logged_result_def
      get_exception_response_def force_render_def log_response_def mark_logged_def)

subsection \<open>The post-render hooks\<close>

lemma template_response_loop_append:
  "template_response_loop (xs @ ys) request response w
     = (case template_response_loop xs request response w of
          (Inl e, w1) \<Rightarrow> (Inl e, w1)
        | (Inr response1, w1) \<Rightarrow> template_response_loop ys request response1 w1)"
  by (induction xs arbitrary: response w) (auto simp: Let_def split: sum.splits option.splits)

lemma template_response_loop_trace:
  "template_response_loop hs request response w = (Inr response1, w1) \<Longrightarrow>
   w1 = add_trace (called ''process_template_response'' hs) w"
proof (induction hs arbitrary: response w)
  case Nil
  then show ?case by (simp add: add_trace_def called_def)
next
  case (Cons a hs)
  from Cons.prems obtain r where
    "template_response_loop hs request r (emit (hook_event a ''process_template_response'') w)
       = (Inr response1, w1)"
    by (auto simp: Let_def split: sum.splits option.splits)
  from Cons.IH[OF this] show ?case
    by (simp add: add_trace_def called_def emit_def)
qed

text \<open>
  C2, as the code has it. The post-render hooks of a loaded handler are those of the
  configuration in reverse configuration order: the hook of the last configured stage runs
  first. They run one after the other, each on the value the hooks before it produced, and
  when the loop returns, every hook has been called once, in that order.
\<close>

theorem post_render_hooks_reverse_order:
  assumes "load_middleware env is_async self = (None, h, l)"
  shows "u_template_response_middleware (hooks h) = rev (template_hooks_of (MIDDLEWARE env))
       \<and> (\<forall>hs1 hs2.
            rev (template_hooks_of (MIDDLEWARE env)) = hs1 @ hs2 \<longrightarrow>
            template_response_loop (u_template_response_middleware (hooks h)) request response w
              = (case template_response_loop hs1 request response w of
                   (Inl e, w1) \<Rightarrow> (Inl e, w1)
                 | (Inr response1, w1) \<Rightarrow> template_response_loop hs2 request response1 w1))
       \<and> (\<forall>response1 w1.
            template_response_loop (u_template_response_middleware (hooks h)) request response w
              = (Inr response1, w1) \<longrightarrow>
            w1 = add_trace (called ''process_template_response''
                              (rev (template_hooks_of (MIDDLEWARE env)))) w)"
proof -
  have order: "u_template_response_middleware (hooks h) = rev (template_hooks_of (MIDDLEWARE env))"
    using assms by (rule load_middleware_lists)
  show ?thesis
    unfolding order
    using template_response_loop_append[of _ _ request response w]
      template_response_loop_trace[of "rev (template_hooks_of (MIDDLEWARE env))" request response w]
    by auto
qed

theorem post_render_hooks_reverse_order_witness:
  "fst (load_middleware c2_env False new_handler) = None
   \<and> template_hooks_of (MIDDLEWARE c2_env) = [tagging_hook ''A'', tagging_hook ''B'']
   \<and> u_template_response_middleware (hooks (fst (snd (load_middleware c2_env False new_handler))))
       = [tagging_hook ''B'', tagging_hook ''A'']
   \<and> template_response_loop
       (u_template_response_middleware (hooks (fst (snd (load_middleware c2_env False new_handler)))))
       example_request (PyResponse (deferred ''v'')) example_world
       = (Inr (PyResponse (deferred ''vBA'')),
          add_trace [CallHook ''B'' ''process_template_response'',
                     CallHook ''A'' ''process_template_response''] example_world)"
proof -
  let ?h = "fst (snd (load_middleware c2_env False new_handler))"
  let ?run = "template_response_loop (u_template_response_middleware (hooks ?h)) example_request
                (PyResponse (deferred ''v'')) example_world"
  have loaded: "fst (load_middleware c2_env False new_handler) = None"
    by (simp add: c2_env_def example_defs load_defs Let_def)
  have conf: "template_hooks_of (MIDDLEWARE c2_env) = [tagging_hook ''A'', tagging_hook ''B'']"
    by (simp add: c2_env_def example_defs template_hooks_of_def List.map_filter_simps)
  note t = post_render_hooks_reverse_order[OF load_result[OF loaded], of example_request
      "PyResponse (deferred ''v'')" example_world]
  have order: "u_template_response_middleware (hooks ?h) = [tagging_hook ''B'', tagging_hook ''A'']"
    using t by (simp add: conf)
  have split: "?run
      = (case template_response_loop [tagging_hook ''B''] example_request
                (PyResponse (deferred ''v'')) example_world of
           (Inl e, w1) \<Rightarrow> (Inl e, w1)
         | (Inr response1, w1) \<Rightarrow>
             template_response_loop [tagging_hook ''A''] example_request response1 w1)"
    by (rule t[THEN conjunct2, THEN conjunct1, rule_format]) (simp add: conf)
  have run: "?run
      = (Inr (PyResponse (deferred ''vBA'')),
         add_trace [CallHook ''B'' ''process_template_response'',
                    CallHook ''A'' ''process_template_response''] example_world)"
    unfolding split
    by (simp add: tagging_hook_def deferred_def example_hook_def check_response_def
        hook_event_def emit_def add_trace_def)
  from loaded conf order run show ?thesis by blast
qed

text \<open>
  The claim as stated fails: with stage \<open>A\<close> configured before stage \<open>B\<close>, the hook of
  \<open>B\<close> runs first and the hook of \<open>A\<close> receives its output.
\<close>

theorem post_render_configuration_order_counterexample:
  "map self_class_name (template_hooks_of (MIDDLEWARE c2_env)) = [''A'', ''B'']
   \<and> u_get_response c2_env (hooks (fst (snd (load_middleware c2_env False new_handler))))
       example_request example_world
     = (Inr (PyResponse (Response 200 ''OK'' ''vBA'' [] (Some True) None False)),
        example_world
          \<lparr>trace := [CallView ''app.views.index'' [],
                     CallHook ''B'' ''process_template_response'',
                     CallHook ''A'' ''process_template_response''],
           resolver_match := Some (example_view False (Inr (PyResponse (deferred ''v''))), [], [])\<rparr>)"
proof -
  have conf: "map self_class_name (template_hooks_of (MIDDLEWARE c2_env)) = [''A'', ''B'']"
    by (simp add: c2_env_def example_defs template_hooks_of_def List.map_filter_simps
        tagging_hook_def)
  have run: "u_get_response c2_env
       (hooks (fst (snd (load_middleware c2_env False new_handler))))
       example_request example_world
     = (Inr (PyResponse (Response 200 ''OK'' ''vBA'' [] (Some True) None False)),
        example_world
          \<lparr>trace := [CallView ''app.views.index'' [],
                     CallHook ''B'' ''process_template_response'',
                     CallHook ''A'' ''process_template_response''],
           resolver_match := Some (example_view False (Inr (PyResponse (deferred ''v''))), [], [])\<rparr>)"
    by (simp add: c2_env_def example_defs load_defs dispatch_defs Let_def tagging_hook_def
        deferred_def)
  from conf run show ?thesis by blast
qed

subsection \<open>Invalid results of a view\<close>

lemma check_response_invalid:
  "response = PyNone \<or> response = PyCoroutine \<Longrightarrow>
   check_response response c None
     = Some (Exception ValueError (view_label c @ invalid_result_text response))"
  by (auto simp: check_response_def view_label_def invalid_result_text_def Let_def)

lemma invalid_result_raised:
  assumes "response = PyNone \<or> response = PyCoroutine"
    and "resolve_request env request w = (Inr (v, a, k), w1)"
    and "view_middleware_loop (u_view_middleware self) request (v, a, k) PyNone w1
           = (Inr PyNone, w2)"
    and "call_view env self m request (v, a, k) w2 = (Inr response, w3)"
  shows "dispatch env self m request w
           = (Inl (Exception ValueError (view_label (view_info v) @ invalid_result_text response)),
              w3)"
  using assms(2,3,4) check_response_invalid[OF assms(1), of "view_info v"]
  by (simp add: dispatch_def)

text \<open>
  C3, as the code has it. When no pre-invocation hook has answered and the call of the
  view gives \<^verbatim>\<open>None\<close> or a coroutine that was never awaited, \<open>check_response\<close>
  raises \<^verbatim>\<open>ValueError\<close> with a message that names the view, and the dispatch engine,
  blocking or cooperative, raises it without consulting the on-fault hooks. The wrapper
  that \<open>load_middleware\<close> puts around the engine treats it as any exception of no
  classified kind: under the propagate override it raises it again; with the override off
  it answers with the page for uncaught exceptions (the diagnostic page asked with status
  500 under the debug flag, the page of the error handler resolved for 500 otherwise),
  marked as logged and force-rendered, provided that page is returned and renders; the
  response has status 500 when the rendered page has. In a pipeline with no stage in use
  the caller of \<open>get_response\<close> or \<open>get_response_async\<close> receives the exception in
  the first case and that response, with the close callback of the request appended, in
  the second.
\<close>

theorem invalid_result_is_classified:
  assumes "response = PyNone \<or> response = PyCoroutine"
    and "resolve_request env request w = (Inr (v, a, k), w1)"
    and "view_middleware_loop (u_view_middleware self) request (v, a, k) PyNone w1
           = (Inr PyNone, w2)"
    and "call_view env self m request (v, a, k) w2 = (Inr response, w3)"
  shows "check_response response (view_info v) None
           = Some (Exception ValueError (view_label (view_info v) @ invalid_result_text response))
       \<and> (\<not> m \<longrightarrow>
            u_get_response env self request w
              = (Inl (Exception ValueError
                        (view_label (view_info v) @ invalid_result_text response)), w3))
       \<and> (m \<longrightarrow>
            u_get_response_async env self request w
              = (Inl (Exception ValueError
                        (view_label (view_info v) @ invalid_result_text response)), w3))
       \<and> (DEBUG_PROPAGATE_EXCEPTIONS env \<longrightarrow>
            convert_exception_to_response env (dispatch_engine env m self) request w
              = (Inl (Exception ValueError
                        (view_label (view_info v) @ invalid_result_text response)),
                 emit GotRequestException w3))
       \<and> (\<forall>p r.
            \<not> DEBUG_PROPAGATE_EXCEPTIONS env
            \<and> uncaught_page env request
                  (Exception ValueError (view_label (view_info v) @ invalid_result_text response))
                  w3 = Inr p
            \<and> force_render (mark_logged p) = Inr r
            \<longrightarrow> convert_exception_to_response env (dispatch_engine env m self) request w
                  = (Inr (PyResponse r),
                     if u_has_been_logged p then emit GotRequestException w3
                     else emit (LogResponse (reason_phrase p @ '': '' @ path request)
                                  (status_code p))
                            (emit GotRequestException w3))
                \<and> (status_code r = 500 \<longrightarrow>
                     (\<exists>r1 w4. convert_exception_to_response env (dispatch_engine env m self)
                                 request w = (Inr (PyResponse r1), w4)
                              \<and> status_code r1 = 500)))
       \<and> (\<forall>h l self0 w0.
            load_middleware env m self0 = (None, h, l)
            \<and> instances_of (MIDDLEWARE env) = [] \<and> hooks h = self
            \<and> set_urlconf (Some (ROOT_URLCONF env)) w0 = w
            \<longrightarrow> (DEBUG_PROPAGATE_EXCEPTIONS env \<longrightarrow>
                   get_response env h request w0
                     = (Inl (Exception ValueError
                               (view_label (view_info v) @ invalid_result_text response)),
                        emit GotRequestException w3)
                   \<and> get_response_async env h request w0
                       = (Inl (Exception ValueError
                                 (view_label (view_info v) @ invalid_result_text response)),
                          emit GotRequestException w3))
                \<and> (\<forall>p r.
                     \<not> DEBUG_PROPAGATE_EXCEPTIONS env
                     \<and> uncaught_page env request
                           (Exception ValueError
                              (view_label (view_info v) @ invalid_result_text response))
                           w3 = Inr p
                     \<and> force_render (mark_logged p) = Inr r
                     \<longrightarrow> fst (get_response env h request w0) = Inr (delivered request r)
                         \<and> fst (get_response_async env h request w0)
                             = Inr (delivered request r)
                         \<and> status_code (delivered request r) = status_code r))"
proof -
  let ?e = "Exception ValueError (view_label (view_info v) @ invalid_result_text response)"
  let ?engine = "dispatch_engine env m self"
  have chk: "check_response response (view_info v) None = Some ?e"
    using assms(1) by (rule check_response_invalid)
  note raised = invalid_result_raised[OF assms]
  have sync: "\<not> m \<longrightarrow> u_get_response env self request w = (Inl ?e, w3)"
    using raised by (cases m) (simp_all add: u_get_response_def)
  have async: "m \<longrightarrow> u_get_response_async env self request w = (Inl ?e, w3)"
    using raised by (cases m) (simp_all add: u_get_response_async_def)
  have engine: "?engine request w = (Inl ?e, w3)"
    using sync async by (cases m) (simp_all add: dispatch_engine_def)
  have conv: "convert_exception_to_response env ?engine request w
           = (case response_for_exception env request ?e w3 of
                (Inl e, w4) \<Rightarrow> (Inl e, w4)
              | (Inr r, w4) \<Rightarrow> (Inr (PyResponse r), w4))"
    by (simp add: convert_exception_to_response_def engine)
  have u: "\<not> classified (exc_class ?e)"
    by (simp add: classified_def)
  have again: "convert_exception_to_response env ?engine request w
              = (Inl ?e, emit GotRequestException w3)"
    if "DEBUG_PROPAGATE_EXCEPTIONS env"
    using unclassified_propagate[OF u that, of request w3] by (simp add: conv)
  have page: "convert_exception_to_response env ?engine request w
                  = (Inr (PyResponse r),
                     if u_has_been_logged p then emit GotRequestException w3
                     else emit (LogResponse (reason_phrase p @ '': '' @ path request)
                                  (status_code p))
                            (emit GotRequestException w3))"
    if "\<not> DEBUG_PROPAGATE_EXCEPTIONS env" and "uncaught_page env request ?e w3 = Inr p"
      and "force_render (mark_logged p) = Inr r" for p r
    using unclassified_answer[OF u that] by (simp add: conv)
  have entry: "get_response env h request w0
                 = finish_response request (convert_exception_to_response env ?engine request w)
               \<and> get_response_async env h request w0
                 = finish_response request (convert_exception_to_response env ?engine request w)"
    if "load_middleware env m self0 = (None, h, l)" and "instances_of (MIDDLEWARE env) = []"
      and "hooks h = self" and "set_urlconf (Some (ROOT_URLCONF env)) w0 = w" for h l self0 w0
    using loaded_chain[OF that(1)] that(2,3,4)
    by (simp add: get_response_def get_response_async_def nested_chain_def Let_def)
  have top: "(DEBUG_PROPAGATE_EXCEPTIONS env \<longrightarrow>
                   get_response env h request w0 = (Inl ?e, emit GotRequestException w3)
                   \<and> get_response_async env h request w0
                       = (Inl ?e, emit GotRequestException w3))
                \<and> (\<forall>p r.
                     \<not> DEBUG_PROPAGATE_EXCEPTIONS env
                     \<and> uncaught_page env request ?e w3 = Inr p
                     \<and> force_render (mark_logged p) = Inr r
                     \<longrightarrow> fst (get_response env h request w0) = Inr (delivered request r)
                         \<and> fst (get_response_async env h request w0)
                             = Inr (delivered request r)
                         \<and> status_code (delivered request r) = status_code r)"
    if "load_middleware env m self0 = (None, h, l)" and "instances_of (MIDDLEWARE env) = []"
      and "hooks h = self" and "set_urlconf (Some (ROOT_URLCONF env)) w0 = w" for h l self0 w0
    using again page
    by (auto simp: entry[OF that] finish_response_raise finish_response_response delivered_def)
  have page_status: "convert_exception_to_response env ?engine request w
                  = (Inr (PyResponse r),
                     if u_has_been_logged p then emit GotRequestException w3
                     else emit (LogResponse (reason_phrase p @ '': '' @ path request)
                                  (status_code p))
                            (emit GotRequestException w3))
                \<and> (status_code r = 500 \<longrightarrow>
                     (\<exists>r1 w4. convert_exception_to_response env ?engine request w
                                 = (Inr (PyResponse r1), w4)
                              \<and> status_code r1 = 500))"
    if "\<not> DEBUG_PROPAGATE_EXCEPTIONS env" and "uncaught_page env request ?e w3 = Inr p"
      and "force_render (mark_logged p) = Inr r" for p r
    using page[OF that] by simp
  from chk sync async again page_status top show ?thesis by blast
qed

theorem invalid_result_is_classified_witness:
  "get_response (c3_env True) (fst (snd (load_middleware (c3_env True) False new_handler)))
     example_request example_world
   = (Inl (Exception ValueError
        ''The view app.views.index didn't return an HttpResponse object. It returned None instead.''),
      example_world
        \<lparr>trace := [CallView ''app.views.index'' [], GotRequestException],
         current_urlconf := Some ''app.urls'',
         resolver_match := Some (example_view False (Inr PyNone), [], [])\<rparr>)
   \<and> fst (get_response (c3_env False)
            (fst (snd (load_middleware (c3_env False) False new_handler)))
            example_request example_world)
     = Inr (Response 500 ''Internal Server Error'' [] [RequestClose example_request] None None
              True)"
proof -
  let ?v = "example_view False (Inr PyNone)"
  let ?w = "example_world\<lparr>current_urlconf := Some ''app.urls''\<rparr>"
  let ?w1 = "?w\<lparr>resolver_match := Some (?v, [], [])\<rparr>"
  let ?w3 = "emit (CallView ''app.views.index'' []) ?w1"
  have none: "PyNone = PyNone \<or> PyNone = PyCoroutine" by simp
  have loaded: "fst (load_middleware (c3_env p) False new_handler) = None" for p
    by (simp add: c3_env_def example_defs load_defs Let_def)
  have r: "resolve_request (c3_env p) example_request ?w = (Inr (?v, [], []), ?w1)" for p
    by (simp add: c3_env_def example_env_def example_resolver_def example_request_def
        resolve_request_def)
  have l: "view_middleware_loop
             (u_view_middleware (hooks (fst (snd (load_middleware (c3_env p) False new_handler)))))
             example_request (?v, [], []) PyNone ?w1 = (Inr PyNone, ?w1)" for p
    by (simp add: c3_env_def example_env_def load_defs)
  have c: "call_view (c3_env p)
             (hooks (fst (snd (load_middleware (c3_env p) False new_handler))))
             False example_request (?v, [], []) ?w1 = (Inr PyNone, ?w3)" for p
    by (simp add: c3_env_def example_env_def example_view_def load_defs dispatch_defs)
  have pipeline: "load_middleware (c3_env p) False new_handler
                 = (None, fst (snd (load_middleware (c3_env p) False new_handler)),
                    snd (snd (load_middleware (c3_env p) False new_handler)))
               \<and> instances_of (MIDDLEWARE (c3_env p)) = []
               \<and> hooks (fst (snd (load_middleware (c3_env p) False new_handler)))
                   = hooks (fst (snd (load_middleware (c3_env p) False new_handler)))
               \<and> set_urlconf (Some (ROOT_URLCONF (c3_env p))) example_world = ?w" for p
    using load_result[OF loaded[of p]]
    by (simp add: c3_env_def example_env_def instances_of_def set_urlconf_def)
  note override_on = invalid_result_is_classified[OF none r[of True] l[of True] c[of True],
      THEN conjunct2, THEN conjunct2, THEN conjunct2, THEN conjunct2, THEN conjunct2,
      rule_format, OF pipeline[of True]]
  note override_off = invalid_result_is_classified[OF none r[of False] l[of False] c[of False],
      THEN conjunct2, THEN conjunct2, THEN conjunct2, THEN conjunct2, THEN conjunct2,
      rule_format, OF pipeline[of False]]
  have a: "get_response (c3_env True)
             (fst (snd (load_middleware (c3_env True) False new_handler)))
             example_request example_world
           = (Inl (Exception ValueError
                     (view_label (view_info ?v) @ invalid_result_text PyNone)),
              emit GotRequestException ?w3)"
    by (rule override_on[THEN conjunct1, rule_format, THEN conjunct1])
      (simp add: c3_env_def example_env_def)
  have b: "fst (get_response (c3_env False)
                  (fst (snd (load_middleware (c3_env False) False new_handler)))
                  example_request example_world)
           = Inr (delivered example_request
                    (mark_logged (plain_response 500 ''Internal Server Error'')))"
    by (rule override_off[THEN conjunct2, rule_format,
          of "plain_response 500 ''Internal Server Error''", THEN conjunct1])
      (simp add: c3_env_def example_env_def example_resolver_def uncaught_page_def
        handler_page_def force_render_def mark_logged_def plain_response_def emit_def)
  from a b show ?thesis
    by (simp add: view_label_def invalid_result_text_def example_view_def emit_def
        example_world_def delivered_def mark_logged_def plain_response_def)
qed

text \<open>
  The claim as stated fails: with no stage configured, the debug flag and the propagate
  override off, and a view that returns \<^verbatim>\<open>None\<close>, the caller of
  \<open>get_response\<close> receives the response of the error handler for status 500.
\<close>

theorem invalid_result_converted_counterexample:
  "get_response (c3_env False) (fst (snd (load_middleware (c3_env False) False new_handler)))
     example_request example_world
   = (Inr (Response 500 ''Internal Server Error'' [] [RequestClose example_request] None None
             True),
      example_world
        \<lparr>trace := [CallView ''app.views.index'' [], GotRequestException,
                   LogResponse ''Internal Server Error: /a'' 500],
         current_urlconf := Some ''app.urls'',
         resolver_match := Some (example_view False (Inr PyNone), [], [])\<rparr>)"
  by (simp add: c3_env_def example_defs load_defs dispatch_defs Let_def get_response_def
      finish_response_def append_closer_def convert_exception_to_response_def
      response_for_exception_def rendered_result_def logged_result_def
      handle_uncaught_exception_def force_render_def log_response_def mark_logged_def)

subsection \<open>The mode of a stage\<close>

lemma load_step_mode:
  assumes "factory m = Returns inst" and "middleware_can_sync m \<or> middleware_can_async m"
  shows "fst (load_step env is_async m st) = None"
    and "handler_is_async (snd (load_step env is_async m st))
           = (if \<not> handler_is_async st \<and> middleware_can_sync m then False
              else middleware_can_async m)"
  using assms by (auto simp: load_step_def middleware_is_async_def Let_def)

lemma load_step_blocking:
  assumes "load_step env is_async m st = (None, st1)"
    and "\<not> handler_is_async st" and "middleware_can_sync m"
  shows "\<not> handler_is_async st1"
  using assms
  by (auto simp: load_step_def middleware_is_async_def Let_def
      split: factory_outcome.splits if_splits)

lemma middleware_loop_blocking:
  "middleware_loop env is_async ms st = (None, st1) \<Longrightarrow> \<not> handler_is_async st \<Longrightarrow>
   \<forall>x\<in>set ms. middleware_can_sync x \<Longrightarrow> \<not> handler_is_async st1"
proof (induction ms arbitrary: st)
  case Nil
  then show ?case by simp
next
  case (Cons m ms)
  from Cons.prems(1) obtain st2 where s: "load_step env is_async m st = (None, st2)"
    and l: "middleware_loop env is_async ms st2 = (None, st1)"
    by (auto split: prod.splits option.splits)
  from load_step_blocking[OF s Cons.prems(2)] Cons.prems(3) have "\<not> handler_is_async st2"
    by simp
  from Cons.IH[OF l this] Cons.prems(3) show ?case by simp
qed

text \<open>
  C4, as the code has it. The test is made on the handler the stage wraps, not on the mode
  of the pipeline: a stage runs in blocking mode when the handler built so far is blocking
  and the stage declares blocking capability, and otherwise in the mode given by its
  cooperative capability flag. The mode becomes \<open>handler_is_async\<close> for the next turn. In
  a blocking pipeline the handler built so far is blocking as long as every stage met so
  far declares blocking capability, so there a stage with blocking capability runs blocking.
\<close>

theorem stage_mode_follows_wrapped_handler:
  assumes "factory m = Returns inst" and "middleware_can_sync m \<or> middleware_can_async m"
  shows "fst (load_step env is_async m st) = None
       \<and> handler_is_async (snd (load_step env is_async m st))
           = (if \<not> handler_is_async st \<and> middleware_can_sync m then False
              else middleware_can_async m)
       \<and> (\<forall>ms. middleware_loop env False ms (initial_loading env False) = (None, st)
                \<and> (\<forall>x\<in>set ms. middleware_can_sync x) \<and> middleware_can_sync m
             \<longrightarrow> \<not> handler_is_async (snd (load_step env False m st)))"
proof -
  have "\<not> handler_is_async (snd (load_step env False m st))"
    if "middleware_loop env False ms (initial_loading env False) = (None, st)"
      and "\<forall>x\<in>set ms. middleware_can_sync x" and "middleware_can_sync m" for ms
  proof -
    have "\<not> handler_is_async (initial_loading env False)"
      by (simp add: initial_loading_def)
    from middleware_loop_blocking[OF that(1) this that(2)] have "\<not> handler_is_async st" .
    with load_step_mode(2)[OF assms, of env False st] that(3) show ?thesis by simp
  qed
  with load_step_mode[OF assms, of env is_async st] show ?thesis by blast
qed

theorem stage_mode_follows_wrapped_handler_witness:
  "fst (middleware_loop c4_env False [c4_stage_B] (initial_loading c4_env False)) = None
   \<and> handler_is_async
       (snd (load_step c4_env False c4_stage_A
               (snd (middleware_loop c4_env False [c4_stage_B] (initial_loading c4_env False)))))
   \<and> \<not> handler_is_async (snd (load_step c4_env False c4_stage_A (initial_loading c4_env False)))"
proof -
  let ?st = "snd (middleware_loop c4_env False [c4_stage_B] (initial_loading c4_env False))"
  have f: "factory c4_stage_A = Returns (example_instance None None None)"
    by (simp add: c4_stage_A_def example_middleware_def)
  have c: "middleware_can_sync c4_stage_A \<or> middleware_can_async c4_stage_A"
    by (simp add: c4_stage_A_def example_middleware_def middleware_can_sync_def)
  have b: "fst (middleware_loop c4_env False [c4_stage_B] (initial_loading c4_env False)) = None"
    by (simp add: c4_env_def c4_stage_B_def example_defs load_defs Let_def)
  have inner: "handler_is_async ?st"
    by (simp add: c4_env_def c4_stage_B_def example_defs load_defs Let_def)
  from stage_mode_follows_wrapped_handler[OF f c, of c4_env False ?st] inner
  have after_B: "handler_is_async (snd (load_step c4_env False c4_stage_A ?st))"
    by (simp add: c4_stage_A_def example_middleware_def middleware_can_async_def)
  from stage_mode_follows_wrapped_handler[OF f c, of c4_env False "initial_loading c4_env False",
      THEN conjunct2, THEN conjunct2, rule_format, of "[]"]
  have alone: "\<not> handler_is_async (snd (load_step c4_env False c4_stage_A
                                           (initial_loading c4_env False)))"
    by (simp add: c4_stage_A_def example_middleware_def middleware_can_sync_def)
  from b after_B alone show ?thesis by blast
qed

text \<open>
  The claim as stated fails: in the blocking pipeline configured as \<open>[A, B]\<close>, stage
  \<open>A\<close> declares blocking capability and still runs in cooperative mode, because the
  handler it wraps (stage \<open>B\<close>) is cooperative. The debug log shows a single adaptation, of
  the blocking dispatch engine for \<open>B\<close>; no cooperative handler is adapted for \<open>A\<close>.
\<close>

theorem blocking_pipeline_stage_mode_counterexample:
  "MIDDLEWARE c4_env = [c4_stage_A, c4_stage_B]
   \<and> middleware_can_sync c4_stage_A
   \<and> middleware_is_async
       (handler_is_async
          (snd (middleware_loop c4_env False [c4_stage_B] (initial_loading c4_env False))))
       c4_stage_A = Inr True
   \<and> fst (load_middleware c4_env False new_handler) = None
   \<and> snd (snd (load_middleware c4_env False new_handler))
       = [LoggerDebug ''Synchronous handler adapted for middleware app.B.'']"
proof -
  have a: "MIDDLEWARE c4_env = [c4_stage_A, c4_stage_B]"
    by (simp add: c4_env_def example_env_def)
  have b: "middleware_can_sync c4_stage_A"
    by (simp add: c4_stage_A_def example_middleware_def middleware_can_sync_def)
  have c: "middleware_is_async
       (handler_is_async
          (snd (middleware_loop c4_env False [c4_stage_B] (initial_loading c4_env False))))
       c4_stage_A = Inr True"
    by (simp add: c4_env_def c4_stage_A_def c4_stage_B_def example_defs load_defs Let_def)
  have d: "fst (load_middleware c4_env False new_handler) = None"
    by (simp add: c4_env_def c4_stage_A_def c4_stage_B_def example_defs load_defs Let_def)
  have e: "snd (snd (load_middleware c4_env False new_handler))
       = [LoggerDebug ''Synchronous handler adapted for middleware app.B.'']"
    by (simp add: c4_env_def c4_stage_A_def c4_stage_B_def example_defs load_defs Let_def)
  from a b c d e show ?thesis by blast
qed

subsection \<open>The pre-invocation hooks\<close>

lemma view_middleware_loop_first:
  "\<forall>x\<in>set hs1. view_hook_declines x request rm \<Longrightarrow>
   hook_call hk request (fst rm) (fst (snd rm)) (snd (snd rm)) = Inr r \<Longrightarrow> truthy r \<Longrightarrow>
   view_middleware_loop (hs1 @ hk # hs2) request rm response w
     = (Inr r, add_trace (called ''process_view'' (hs1 @ [hk])) w)"
proof (induction hs1 arbitrary: w response)
  case Nil
  then show ?case by (simp add: add_trace_def called_def emit_def)
next
  case (Cons a hs1)
  then show ?case
    by (auto simp: add_trace_def called_def emit_def view_hook_declines_def split: sum.splits)
qed

lemma process_exception_quiet:
  "\<exists>es. trace (snd (process_exception_by_middleware hs e request w)) = trace w @ es
        \<and> (\<forall>ev\<in>set es. no_view_call ev)"
proof (induction hs arbitrary: w)
  case Nil
  then show ?case by simp
next
  case (Cons a hs)
  let ?w1 = "emit (hook_event a ''process_exception'') w"
  from Cons[of ?w1] obtain es where
    es: "trace (snd (process_exception_by_middleware hs e request ?w1)) = trace ?w1 @ es"
      "\<forall>ev\<in>set es. no_view_call ev"
    by blast
  have "trace (snd (process_exception_by_middleware (a # hs) e request w))
          = trace w @ [hook_event a ''process_exception'']
      \<or> trace (snd (process_exception_by_middleware (a # hs) e request w))
          = trace w @ hook_event a ''process_exception'' # es"
    using es(1) by (auto simp: Let_def emit_def split: sum.splits)
  then show ?case
    using es(2) by (auto simp: hook_event_def)
qed

lemma with_exception_middleware_quiet:
  "\<exists>es. trace (snd (with_exception_middleware hs request (res, w))) = trace w @ es
        \<and> (\<forall>ev\<in>set es. no_view_call ev)"
proof (cases res)
  case (Inl e)
  from process_exception_quiet[of hs e request w] show ?thesis
    by (auto simp: with_exception_middleware_def Inl split: prod.splits sum.splits)
next
  case (Inr r)
  then show ?thesis by (simp add: with_exception_middleware_def)
qed

lemma template_response_loop_quiet:
  "\<exists>es. trace (snd (template_response_loop hs request response w)) = trace w @ es
        \<and> (\<forall>ev\<in>set es. no_view_call ev)"
proof (induction hs arbitrary: w response)
  case Nil
  then show ?case by simp
next
  case (Cons a hs)
  let ?w1 = "emit (hook_event a ''process_template_response'') w"
  show ?case
  proof (cases "\<exists>r. template_response_loop (a # hs) request response w
                      = template_response_loop hs request r ?w1")
    case True
    then obtain r where
      r: "template_response_loop (a # hs) request response w
            = template_response_loop hs request r ?w1"
      by blast
    from Cons[of r ?w1] obtain es where
      "trace (snd (template_response_loop hs request r ?w1)) = trace ?w1 @ es"
      "\<forall>ev\<in>set es. no_view_call ev"
      by blast
    then have "trace (snd (template_response_loop (a # hs) request response w))
                 = trace w @ hook_event a ''process_template_response'' # es
               \<and> (\<forall>ev\<in>set (hook_event a ''process_template_response'' # es). no_view_call ev)"
      unfolding r by (simp add: emit_def hook_event_def)
    then show ?thesis by blast
  next
    case False
    then have "trace (snd (template_response_loop (a # hs) request response w))
                 = trace w @ [hook_event a ''process_template_response'']"
      by (auto simp: Let_def emit_def split: sum.splits option.splits)
    then show ?thesis by (auto simp: hook_event_def)
  qed
qed

lemma render_phase_quiet:
  "\<exists>es. trace (snd (render_phase self request response w)) = trace w @ es
        \<and> (\<forall>ev\<in>set es. no_view_call ev)"
proof (cases "has_render response")
  case False
  then show ?thesis by (simp add: render_phase_def)
next
  case True
  obtain res w1 where
    l: "template_response_loop (u_template_response_middleware self) request response w
          = (res, w1)"
    by (cases "template_response_loop (u_template_response_middleware self) request response w")
  from template_response_loop_quiet[of "u_template_response_middleware self" request response w]
  obtain es where es: "trace w1 = trace w @ es" "\<forall>ev\<in>set es. no_view_call ev"
    by (auto simp: l)
  show ?thesis
  proof (cases res)
    case (Inl e)
    then show ?thesis using es by (simp add: render_phase_def True l)
  next
    case (Inr r)
    from with_exception_middleware_quiet[of "u_exception_middleware self" request
        "call_render r" w1]
    obtain es2 where
      "trace (snd (with_exception_middleware (u_exception_middleware self) request
                     (call_render r, w1))) = trace w1 @ es2"
      "\<forall>ev\<in>set es2. no_view_call ev"
      by blast
    then have "trace (snd (render_phase self request response w)) = trace w @ (es @ es2)
               \<and> (\<forall>ev\<in>set (es @ es2). no_view_call ev)"
      using es by (auto simp: render_phase_def True l Inr)
    then show ?thesis by blast
  qed
qed

lemma dispatch_short_circuit:
  assumes "resolve_request env request w = (Inr rm, w1)"
    and "view_middleware_loop (u_view_middleware self) request rm PyNone w1 = (Inr r, w2)"
    and "truthy r"
  shows "dispatch env self is_async request w
           = (case check_response r (view_info (fst rm)) None of
                Some e \<Rightarrow> (Inl e, w2)
              | None \<Rightarrow> render_phase self request r w2)"
proof -
  from assms(3) have "r \<noteq> PyNone" by auto
  with assms(1,2) show ?thesis by (simp add: dispatch_def)
qed

lemma u_get_response_async_world:
  "snd (u_get_response_async env self request w) = snd (dispatch env self True request w)"
  by (auto simp: u_get_response_async_def split: prod.splits sum.splits)

text \<open>
  C5, as the code has it. In a loaded handler the pre-invocation hooks stand in
  configuration order. When the hooks configured before \<open>hk\<close> decline and \<open>hk\<close>
  returns a true value \<open>r\<close>, the loop stops there, having called exactly these hooks.
  In either engine \<open>r\<close> then takes the place of the result of the view: it is validated
  and handed to the render phase, which passes a value with a render operation through the
  post-render hooks and renders it; the cooperative engine checks at the end that the
  result is no coroutine. Both engines return \<open>r\<close> itself when \<open>r\<close> is no coroutine and
  has no render operation. Nothing recorded after the call of \<open>hk\<close> is the call of a view
  or of a pre-invocation hook: the handler and the later hooks are not invoked.
\<close>

theorem pre_invocation_short_circuit:
  assumes "load_middleware env is_async self = (None, h, l)"
    and "resolve_request env request w = (Inr rm, w1)"
    and "view_hooks_of (MIDDLEWARE env) = hs1 @ hk # hs2"
    and "\<forall>x\<in>set hs1. view_hook_declines x request rm"
    and "hook_call hk request (fst rm) (fst (snd rm)) (snd (snd rm)) = Inr r"
    and "truthy r"
  shows "u_view_middleware (hooks h) = view_hooks_of (MIDDLEWARE env)
       \<and> view_middleware_loop (u_view_middleware (hooks h)) request rm PyNone w1
           = (Inr r, add_trace (called ''process_view'' (hs1 @ [hk])) w1)
       \<and> u_get_response env (hooks h) request w
           = (case check_response r (view_info (fst rm)) None of
                Some e \<Rightarrow> (Inl e, add_trace (called ''process_view'' (hs1 @ [hk])) w1)
              | None \<Rightarrow>
                  render_phase (hooks h) request r
                    (add_trace (called ''process_view'' (hs1 @ [hk])) w1))
       \<and> u_get_response_async env (hooks h) request w
           = (case (case check_response r (view_info (fst rm)) None of
                      Some e \<Rightarrow> (Inl e, add_trace (called ''process_view'' (hs1 @ [hk])) w1)
                    | None \<Rightarrow>
                        render_phase (hooks h) request r
                          (add_trace (called ''process_view'' (hs1 @ [hk])) w1)) of
                (Inl e, w3) \<Rightarrow> (Inl e, w3)
              | (Inr response, w3) \<Rightarrow>
                  if response = PyCoroutine
                  then (Inl (Exception RuntimeError ''Response is still a coroutine.''), w3)
                  else (Inr response, w3))
       \<and> (r \<noteq> PyCoroutine \<and> \<not> has_render r \<longrightarrow>
            u_get_response env (hooks h) request w
              = (Inr r, add_trace (called ''process_view'' (hs1 @ [hk])) w1)
            \<and> u_get_response_async env (hooks h) request w
                = (Inr r, add_trace (called ''process_view'' (hs1 @ [hk])) w1))
       \<and> (\<exists>es. trace (snd (u_get_response env (hooks h) request w))
                  = trace w1 @ called ''process_view'' (hs1 @ [hk]) @ es
                \<and> (\<forall>ev\<in>set es. no_view_call ev))
       \<and> (\<exists>es. trace (snd (u_get_response_async env (hooks h) request w))
                  = trace w1 @ called ''process_view'' (hs1 @ [hk]) @ es
                \<and> (\<forall>ev\<in>set es. no_view_call ev))"
proof -
  let ?w2 = "add_trace (called ''process_view'' (hs1 @ [hk])) w1"
  let ?next = "case check_response r (view_info (fst rm)) None of
                 Some e \<Rightarrow> (Inl e, ?w2)
               | None \<Rightarrow> render_phase (hooks h) request r ?w2"
  have order: "u_view_middleware (hooks h) = view_hooks_of (MIDDLEWARE env)"
    using assms(1) by (rule load_middleware_lists)
  have loop: "view_middleware_loop (u_view_middleware (hooks h)) request rm PyNone w1
                = (Inr r, ?w2)"
    unfolding order assms(3)
    using assms(4,5,6) by (rule view_middleware_loop_first)
  have engine: "dispatch env (hooks h) m request w = ?next" for m
    using assms(2) loop assms(6) by (rule dispatch_short_circuit)
  have run: "u_get_response env (hooks h) request w = ?next"
    by (simp add: u_get_response_def engine)
  have run_async: "u_get_response_async env (hooks h) request w
           = (case ?next of
                (Inl e, w3) \<Rightarrow> (Inl e, w3)
              | (Inr response, w3) \<Rightarrow>
                  if response = PyCoroutine
                  then (Inl (Exception RuntimeError ''Response is still a coroutine.''), w3)
                  else (Inr response, w3))"
    by (simp add: u_get_response_async_def engine)
  have plain: "r \<noteq> PyCoroutine \<and> \<not> has_render r \<longrightarrow>
            u_get_response env (hooks h) request w = (Inr r, ?w2)
            \<and> u_get_response_async env (hooks h) request w = (Inr r, ?w2)"
    using assms(6) by (auto simp: run run_async check_response_def render_phase_def)
  from render_phase_quiet[of "hooks h" request r ?w2] obtain es where
    es: "trace (snd (render_phase (hooks h) request r ?w2)) = trace ?w2 @ es"
      "\<forall>ev\<in>set es. no_view_call ev"
    by blast
  have "trace (snd ?next) = trace ?w2 @ [] \<or> trace (snd ?next) = trace ?w2 @ es"
    using es(1) by (simp split: option.splits)
  then have quiet_next: "\<exists>es. trace (snd ?next)
                  = trace w1 @ called ''process_view'' (hs1 @ [hk]) @ es
                \<and> (\<forall>ev\<in>set es. no_view_call ev)"
    using es(2) by (auto simp: add_trace_def)
  have quiet: "\<exists>es. trace (snd (u_get_response env (hooks h) request w))
                  = trace w1 @ called ''process_view'' (hs1 @ [hk]) @ es
                \<and> (\<forall>ev\<in>set es. no_view_call ev)"
    using quiet_next by (simp only: run)
  have quiet_async: "\<exists>es. trace (snd (u_get_response_async env (hooks h) request w))
                  = trace w1 @ called ''process_view'' (hs1 @ [hk]) @ es
                \<and> (\<forall>ev\<in>set es. no_view_call ev)"
    using quiet_next by (simp only: u_get_response_async_world engine)
  from order loop run run_async plain quiet quiet_async show ?thesis by blast
qed

theorem pre_invocation_short_circuit_witness:
  "fst (load_middleware c5_env False new_handler) = None
   \<and> map self_class_name (view_hooks_of (MIDDLEWARE c5_env)) = [''A'', ''B'', ''C'']
   \<and> u_get_response c5_env (hooks (fst (snd (load_middleware c5_env False new_handler))))
       example_request example_world
     = (Inr (PyResponse (plain_response 200 ''OK'')),
        add_trace [CallHook ''A'' ''process_view'', CallHook ''B'' ''process_view'']
          (example_world
             \<lparr>resolver_match :=
                Some (example_view False (Inr (PyResponse (plain_response 201 ''Created''))),
                      [], [])\<rparr>))
   \<and> u_get_response_async c5_env (hooks (fst (snd (load_middleware c5_env False new_handler))))
       example_request example_world
     = (Inr (PyResponse (plain_response 200 ''OK'')),
        add_trace [CallHook ''A'' ''process_view'', CallHook ''B'' ''process_view'']
          (example_world
             \<lparr>resolver_match :=
                Some (example_view False (Inr (PyResponse (plain_response 201 ''Created''))),
                      [], [])\<rparr>))"
proof -
  let ?h = "fst (snd (load_middleware c5_env False new_handler))"
  let ?v = "example_view False (Inr (PyResponse (plain_response 201 ''Created'')))"
  let ?w1 = "example_world\<lparr>resolver_match := Some (?v, [], [])\<rparr>"
  let ?r = "PyResponse (plain_response 200 ''OK'')"
  have loaded: "fst (load_middleware c5_env False new_handler) = None"
    by (simp add: c5_env_def example_defs load_defs Let_def)
  have resolved: "resolve_request c5_env example_request example_world = (Inr (?v, [], []), ?w1)"
    by (simp add: c5_env_def example_defs resolve_request_def)
  have conf: "view_hooks_of (MIDDLEWARE c5_env)
                = [c5_hook ''A'' PyNone] @ c5_hook ''B'' ?r
                    # [c5_hook ''C'' (PyResponse (plain_response 302 ''Found''))]"
    by (simp add: c5_env_def example_env_def example_middleware_def example_instance_def
        view_hooks_of_def List.map_filter_simps)
  have names: "map self_class_name (view_hooks_of (MIDDLEWARE c5_env)) = [''A'', ''B'', ''C'']"
    by (simp add: conf c5_hook_def example_hook_def)
  have declines: "\<forall>x\<in>set [c5_hook ''A'' PyNone]. view_hook_declines x example_request (?v, [], [])"
    by (simp add: view_hook_declines_def c5_hook_def example_hook_def)
  have returns: "hook_call (c5_hook ''B'' ?r) example_request (fst (?v, [], []))
                   (fst (snd (?v, [], []))) (snd (snd (?v, [], []))) = Inr ?r"
    by (simp add: c5_hook_def example_hook_def)
  have true: "truthy ?r" by simp
  note t = pre_invocation_short_circuit[OF load_result[OF loaded] resolved conf declines
      returns true]
  have "u_get_response c5_env (hooks ?h) example_request example_world
          = (Inr ?r, add_trace (called ''process_view'' ([c5_hook ''A'' PyNone] @ [c5_hook ''B'' ?r]))
                       ?w1)
        \<and> u_get_response_async c5_env (hooks ?h) example_request example_world
          = (Inr ?r, add_trace (called ''process_view'' ([c5_hook ''A'' PyNone] @ [c5_hook ''B'' ?r]))
                       ?w1)"
    by (rule t[THEN conjunct2, THEN conjunct2, THEN conjunct2, THEN conjunct2, THEN conjunct1,
          rule_format])
      (simp add: has_render_def plain_response_def)
  then have run: "u_get_response c5_env (hooks ?h) example_request example_world
          = (Inr ?r, add_trace [CallHook ''A'' ''process_view'', CallHook ''B'' ''process_view''] ?w1)
        \<and> u_get_response_async c5_env (hooks ?h) example_request example_world
          = (Inr ?r, add_trace [CallHook ''A'' ''process_view'', CallHook ''B'' ''process_view''] ?w1)"
    by (simp add: called_def hook_event_def c5_hook_def example_hook_def)
  from loaded names run show ?thesis by blast
qed

text \<open>
  The claim as stated fails for a hook that answers with a deferred response: the response
  goes through the post-render hooks and is rendered, and the dispatch result is not the
  response of the hook.
\<close>

theorem pre_invocation_deferred_counterexample:
  "map self_class_name (view_hooks_of (MIDDLEWARE c5_deferred_env)) = [''H'']
   \<and> hook_call (c5_hook ''H'' (PyResponse (deferred ''hook''))) example_request
       (example_view False (Inr (PyResponse (plain_response 201 ''Created'')))) [] []
     = Inr (PyResponse (Response 200 ''OK'' ''hook'' [] (Some False)
              (Some (Inr (Response 200 ''OK'' ''hook'' [] (Some True) None False))) False))
   \<and> u_get_response c5_deferred_env
       (hooks (fst (snd (load_middleware c5_deferred_env False new_handler))))
       example_request example_world
     = (Inr (PyResponse (Response 200 ''OK'' ''hookT'' [] (Some True) None False)),
        example_world
          \<lparr>trace := [CallHook ''H'' ''process_view'',
                     CallHook ''T'' ''process_template_response''],
           resolver_match :=
             Some (example_view False (Inr (PyResponse (plain_response 201 ''Created''))),
                   [], [])\<rparr>)"
proof -
  have a: "map self_class_name (view_hooks_of (MIDDLEWARE c5_deferred_env)) = [''H'']"
    by (simp add: c5_deferred_env_def example_env_def example_middleware_def
        example_instance_def view_hooks_of_def List.map_filter_simps c5_hook_def
        example_hook_def)
  have b: "hook_call (c5_hook ''H'' (PyResponse (deferred ''hook''))) example_request
       (example_view False (Inr (PyResponse (plain_response 201 ''Created'')))) [] []
     = Inr (PyResponse (Response 200 ''OK'' ''hook'' [] (Some False)
              (Some (Inr (Response 200 ''OK'' ''hook'' [] (Some True) None False))) False))"
    by (simp add: c5_hook_def example_hook_def deferred_def)
  have c: "u_get_response c5_deferred_env
       (hooks (fst (snd (load_middleware c5_deferred_env False new_handler))))
       example_request example_world
     = (Inr (PyResponse (Response 200 ''OK'' ''hookT'' [] (Some True) None False)),
        example_world
          \<lparr>trace := [CallHook ''H'' ''process_view'',
                     CallHook ''T'' ''process_template_response''],
           resolver_match :=
             Some (example_view False (Inr (PyResponse (plain_response 201 ''Created''))),
                   [], [])\<rparr>)"
    by (simp add: c5_deferred_env_def example_defs load_defs dispatch_defs Let_def c5_hook_def
        tagging_hook_def deferred_def)
  from a b c show ?thesis by blast
qed

subsection \<open>Cooperative views and transactional wrapping\<close>

lemma atomic_loop_coroutine:
  "view_iscoroutinefunction v \<Longrightarrow> (alias, True) \<in> set cs \<Longrightarrow> alias \<notin> set nar \<Longrightarrow>
   atomic_loop cs nar v
     = Inl (Exception RuntimeError ''You cannot use ATOMIC_REQUESTS with async views.'')"
  by (induction cs nar v rule: atomic_loop.induct) auto

text \<open>
  C6, as the code has it. For a cooperative view and an alias with
  \<^verbatim>\<open>ATOMIC_REQUESTS\<close> that the view does not exclude, \<open>make_view_atomic\<close> raises
  \<^verbatim>\<open>RuntimeError\<close>; the step of dispatch that invokes the view raises it before
  the view is called and without consulting the on-fault hooks, and dispatch raises it
  whenever it reaches that step, that is when the pre-invocation hooks leave
  \<^verbatim>\<open>None\<close>.
\<close>

theorem cooperative_view_atomic_requests:
  assumes "view_iscoroutinefunction v"
    and "(alias, True) \<in> set (connections_settings env)"
    and "alias \<notin> set (u_non_atomic_requests v)"
  shows "make_view_atomic env v
           = Inl (Exception RuntimeError ''You cannot use ATOMIC_REQUESTS with async views.'')
       \<and> call_view env self is_async request (v, a, k) w
           = (Inl (Exception RuntimeError ''You cannot use ATOMIC_REQUESTS with async views.''), w)
       \<and> (\<forall>w1 w2.
            resolve_request env request w = (Inr (v, a, k), w1)
            \<and> view_middleware_loop (u_view_middleware self) request (v, a, k) PyNone w1
                = (Inr PyNone, w2)
            \<longrightarrow> dispatch env self is_async request w
                  = (Inl (Exception RuntimeError
                            ''You cannot use ATOMIC_REQUESTS with async views.''), w2))"
proof -
  have m: "make_view_atomic env v
           = Inl (Exception RuntimeError ''You cannot use ATOMIC_REQUESTS with async views.'')"
    unfolding make_view_atomic_def using assms by (rule atomic_loop_coroutine)
  then have c: "call_view env self is_async request (v, a, k) w
           = (Inl (Exception RuntimeError ''You cannot use ATOMIC_REQUESTS with async views.''), w)"
    for w
    by (simp add: call_view_def)
  from m c show ?thesis
    by (simp add: dispatch_def)
qed

theorem cooperative_view_atomic_requests_witness:
  "u_get_response (c6_env []) (hooks (fst (snd (load_middleware (c6_env []) False new_handler))))
     example_request example_world
   = (Inl (Exception RuntimeError ''You cannot use ATOMIC_REQUESTS with async views.''),
      example_world\<lparr>resolver_match := Some (c6_view, [], [])\<rparr>)"
proof -
  let ?hooks = "hooks (fst (snd (load_middleware (c6_env []) False new_handler)))"
  let ?w1 = "example_world\<lparr>resolver_match := Some (c6_view, [], [])\<rparr>"
  have v: "view_iscoroutinefunction c6_view"
    by (simp add: c6_view_def example_view_def)
  have c: "(''default'', True) \<in> set (connections_settings (c6_env []))"
    by (simp add: c6_env_def example_env_def)
  have n: "''default'' \<notin> set (u_non_atomic_requests c6_view)"
    by (simp add: c6_view_def example_view_def)
  have r: "resolve_request (c6_env []) example_request example_world = (Inr (c6_view, [], []), ?w1)"
    by (simp add: c6_env_def example_env_def example_resolver_def example_request_def
        resolve_request_def)
  have l: "view_middleware_loop (u_view_middleware ?hooks) example_request (c6_view, [], [])
             PyNone ?w1 = (Inr PyNone, ?w1)"
    by (simp add: c6_env_def example_env_def load_defs)
  from cooperative_view_atomic_requests[OF v c n, of ?hooks False example_request "[]" "[]"
      example_world, THEN conjunct2, THEN conjunct2, rule_format, of ?w1 ?w1] r l
  show ?thesis
    by (simp add: u_get_response_def)
qed

text \<open>
  The claim as stated fails: with a pre-invocation hook that returns a response, dispatch
  for a cooperative view under \<^verbatim>\<open>ATOMIC_REQUESTS\<close> returns that response; the
  view is not reached and no fault is raised.
\<close>

theorem cooperative_view_short_circuit_counterexample:
  "view_iscoroutinefunction c6_view
   \<and> connections_settings (c6_env [c6_stage]) = [(''default'', True)]
   \<and> u_non_atomic_requests c6_view = []
   \<and> u_get_response (c6_env [c6_stage])
       (hooks (fst (snd (load_middleware (c6_env [c6_stage]) False new_handler))))
       example_request example_world
     = (Inr (PyResponse (plain_response 302 ''Found'')),
        example_world
          \<lparr>trace := [CallHook ''Gate'' ''process_view''],
           resolver_match := Some (c6_view, [], [])\<rparr>)"
proof -
  have a: "view_iscoroutinefunction c6_view \<and> u_non_atomic_requests c6_view = []"
    by (simp add: c6_view_def example_view_def)
  have b: "connections_settings (c6_env [c6_stage]) = [(''default'', True)]"
    by (simp add: c6_env_def example_env_def)
  have c: "u_get_response (c6_env [c6_stage])
       (hooks (fst (snd (load_middleware (c6_env [c6_stage]) False new_handler))))
       example_request example_world
     = (Inr (PyResponse (plain_response 302 ''Found'')),
        example_world
          \<lparr>trace := [CallHook ''Gate'' ''process_view''],
           resolver_match := Some (c6_view, [], [])\<rparr>)"
    by (simp add: c6_env_def c6_stage_def example_env_def example_middleware_def
        example_instance_def example_hook_def example_resolver_def example_world_def
        example_request_def plain_response_def load_defs dispatch_defs Let_def)
  from a b c show ?thesis by blast
qed

subsection \<open>Limit violations\<close>








subsection \<open>Startup errors of the chain builder\<close>

lemma load_step_no_capability:
  "\<not> middleware_can_sync m \<Longrightarrow> \<not> middleware_can_async m \<Longrightarrow>
   load_step env is_async m st
     = (Some (Exception RuntimeError
                (''Middleware '' @ mw_path m @ '' must have at least one of ''
                   @ ''sync_capable/async_capable set to True.'')), st)"
  by (simp add: load_step_def middleware_is_async_def)

lemma load_step_returns_none:
  "middleware_can_sync m \<or> middleware_can_async m \<Longrightarrow> factory m = ReturnsNone \<Longrightarrow>
   fst (load_step env is_async m st)
     = Some (Exception ImproperlyConfigured
               (''Middleware factory '' @ mw_path m @ '' returned None.''))"
  by (auto simp: load_step_def middleware_is_async_def Let_def)

lemma load_step_fatal:
  "(\<not> middleware_can_sync m \<and> \<not> middleware_can_async m) \<or> factory m = ReturnsNone \<Longrightarrow>
   \<exists>e. fst (load_step env is_async m st) = Some e"
  using load_step_no_capability[of m env is_async st] load_step_returns_none[of m env is_async st]
  by (cases "middleware_can_sync m \<or> middleware_can_async m") auto

lemma middleware_loop_fatal:
  "m \<in> set ms \<Longrightarrow>
   (\<not> middleware_can_sync m \<and> \<not> middleware_can_async m) \<or> factory m = ReturnsNone \<Longrightarrow>
   \<exists>e. fst (middleware_loop env is_async ms st) = Some e"
proof (induction ms arbitrary: st)
  case Nil
  then show ?case by simp
next
  case (Cons a ms)
  obtain res st1 where s: "load_step env is_async a st = (res, st1)"
    by (cases "load_step env is_async a st")
  show ?case
  proof (cases res)
    case (Some e)
    then show ?thesis by (simp add: s)
  next
    case None
    with load_step_fatal[of a env is_async st] Cons.prems s have "m \<in> set ms"
      by auto
    from Cons.IH[OF this Cons.prems(2)] show ?thesis
      by (simp add: s None)
  qed
qed

lemma load_middleware_keeps_chain:
  "fst (load_middleware env is_async self) = Some e \<Longrightarrow>
   u_middleware_chain (fst (snd (load_middleware env is_async self))) = u_middleware_chain self"
  by (auto simp: load_middleware_def split: prod.splits option.splits)

text \<open>
  C8. A stage with neither capability makes the turn of the loop that meets it raise
  \<^verbatim>\<open>RuntimeError\<close>; a stage whose factory returns \<^verbatim>\<open>None\<close> makes it raise
  \<^verbatim>\<open>ImproperlyConfigured\<close>. With such a stage anywhere in the configuration
  \<open>load_middleware\<close> raises and leaves the chain of the handler as it was: no pipeline is
  assigned.
\<close>

theorem fatal_startup_errors:
  "(\<not> middleware_can_sync m \<and> \<not> middleware_can_async m \<longrightarrow>
      load_step env is_async m st
        = (Some (Exception RuntimeError
                   (''Middleware '' @ mw_path m @ '' must have at least one of ''
                      @ ''sync_capable/async_capable set to True.'')), st))
   \<and> ((middleware_can_sync m \<or> middleware_can_async m) \<and> factory m = ReturnsNone \<longrightarrow>
        fst (load_step env is_async m st)
          = Some (Exception ImproperlyConfigured
                    (''Middleware factory '' @ mw_path m @ '' returned None.'')))
   \<and> (m \<in> set (MIDDLEWARE env)
        \<and> ((\<not> middleware_can_sync m \<and> \<not> middleware_can_async m) \<or> factory m = ReturnsNone)
        \<longrightarrow> (\<exists>e. fst (load_middleware env is_async self) = Some e)
            \<and> u_middleware_chain (fst (snd (load_middleware env is_async self)))
                = u_middleware_chain self)"
proof -
  have whole: "(\<exists>e. fst (load_middleware env is_async self) = Some e)
            \<and> u_middleware_chain (fst (snd (load_middleware env is_async self)))
                = u_middleware_chain self"
    if "m \<in> set (MIDDLEWARE env)"
      and "(\<not> middleware_can_sync m \<and> \<not> middleware_can_async m) \<or> factory m = ReturnsNone"
  proof -
    from that(1) have "m \<in> set (rev (MIDDLEWARE env))" by simp
    from middleware_loop_fatal[OF this that(2), of env is_async "initial_loading env is_async"]
    obtain e where "fst (middleware_loop env is_async (rev (MIDDLEWARE env))
                           (initial_loading env is_async)) = Some e"
      by blast
    then have "fst (load_middleware env is_async self) = Some e"
      by (auto simp: load_middleware_def split: prod.splits option.splits)
    with load_middleware_keeps_chain[of env is_async self e] show ?thesis by blast
  qed
  show ?thesis
    using load_step_no_capability[of m env is_async st]
      load_step_returns_none[of m env is_async st] whole
    by blast
qed

theorem fatal_startup_errors_witness:
  "fst (load_middleware c8_env_no_capability False new_handler)
     = Some (Exception RuntimeError
         ''Middleware app.Neither must have at least one of sync_capable/async_capable set to True.'')
   \<and> u_middleware_chain (fst (snd (load_middleware c8_env_no_capability False new_handler))) = None
   \<and> fst (load_middleware c8_env_returns_none False new_handler)
     = Some (Exception ImproperlyConfigured ''Middleware factory app.Nothing returned None.'')
   \<and> u_middleware_chain (fst (snd (load_middleware c8_env_returns_none False new_handler))) = None"
proof -
  let ?neither = "example_middleware ''app.Neither'' (Some False) (Some False)
                    (Returns (example_instance None None None))"
  let ?nothing = "example_middleware ''app.Nothing'' None None ReturnsNone"
  have a: "?neither \<in> set (MIDDLEWARE c8_env_no_capability)
           \<and> ((\<not> middleware_can_sync ?neither \<and> \<not> middleware_can_async ?neither)
                \<or> factory ?neither = ReturnsNone)"
    by (simp add: c8_env_no_capability_def example_env_def example_middleware_def
        middleware_can_sync_def middleware_can_async_def)
  have b: "?nothing \<in> set (MIDDLEWARE c8_env_returns_none)
           \<and> ((\<not> middleware_can_sync ?nothing \<and> \<not> middleware_can_async ?nothing)
                \<or> factory ?nothing = ReturnsNone)"
    by (simp add: c8_env_returns_none_def example_env_def example_middleware_def)
  from fatal_startup_errors[of ?neither c8_env_no_capability False "initial_loading c8_env_no_capability False" new_handler,
      THEN conjunct2, THEN conjunct2, rule_format, OF a]
  have chain_a:
    "u_middleware_chain (fst (snd (load_middleware c8_env_no_capability False new_handler))) = None"
    by (simp add: new_handler_def)
  from fatal_startup_errors[of ?nothing c8_env_returns_none False "initial_loading c8_env_no_capability False" new_handler,
      THEN conjunct2, THEN conjunct2, rule_format, OF b]
  have chain_b:
    "u_middleware_chain (fst (snd (load_middleware c8_env_returns_none False new_handler))) = None"
    by (simp add: new_handler_def)
  have err_a: "fst (load_middleware c8_env_no_capability False new_handler)
     = Some (Exception RuntimeError
         ''Middleware app.Neither must have at least one of sync_capable/async_capable set to True.'')"
    by (simp add: c8_env_no_capability_def example_defs load_defs Let_def)
  have err_b: "fst (load_middleware c8_env_returns_none False new_handler)
     = Some (Exception ImproperlyConfigured ''Middleware factory app.Nothing returned None.'')"
    by (simp add: c8_env_returns_none_def example_defs load_defs Let_def)
  from err_a chain_a err_b chain_b show ?thesis by blast
qed

subsection \<open>The entry point\<close>

text \<open>
  C9, as the code has it. When the chain returns a response, \<open>get_response\<close> and
  \<open>get_response_async\<close> return it with the close callback of the request appended to
  its resource closers. For a status of 400 or more they pass the line made of the reason
  phrase, a colon and the path to \<open>log_response\<close>, which emits it and marks the
  response, unless the response is already marked as logged: then nothing is emitted. For
  a status below 400 they log nothing.
\<close>

theorem entry_point_bookkeeping:
  assumes "u_middleware_chain self = Some chain"
    and "chain (hooks self) request (set_urlconf (Some (ROOT_URLCONF env)) w)
           = (Inr (PyResponse r), w1)"
  shows "get_response env self request w
           = (Inr (Response (status_code r) (reason_phrase r) (content r)
                     (u_resource_closers r @ [RequestClose request]) (is_rendered r) (render r)
                     (u_has_been_logged r \<or> 400 \<le> status_code r)),
              if 400 \<le> status_code r \<and> \<not> u_has_been_logged r
              then emit (LogResponse (reason_phrase r @ '': '' @ path request) (status_code r)) w1
              else w1)
       \<and> get_response_async env self request w
           = (Inr (Response (status_code r) (reason_phrase r) (content r)
                     (u_resource_closers r @ [RequestClose request]) (is_rendered r) (render r)
                     (u_has_been_logged r \<or> 400 \<le> status_code r)),
              if 400 \<le> status_code r \<and> \<not> u_has_been_logged r
              then emit (LogResponse (reason_phrase r @ '': '' @ path request) (status_code r)) w1
              else w1)"
  using assms
  by (simp add: get_response_def get_response_async_def finish_response_response delivered_def
      Let_def)

theorem entry_point_bookkeeping_witness:
  "get_response (c9_env 404 ''Not Found'')
       (fst (snd (load_middleware (c9_env 404 ''Not Found'') False new_handler)))
       example_request example_world
     = (Inr (Response 404 ''Not Found'' [] [RequestClose example_request] None None True),
        example_world
          \<lparr>trace := [CallView ''app.views.index'' [], LogResponse ''Not Found: /a'' 404],
           current_urlconf := Some ''app.urls'',
           resolver_match :=
             Some (example_view False (Inr (PyResponse (plain_response 404 ''Not Found''))), [], [])\<rparr>)
   \<and> get_response (c9_env 200 ''OK'')
       (fst (snd (load_middleware (c9_env 200 ''OK'') False new_handler)))
       example_request example_world
     = (Inr (Response 200 ''OK'' [] [RequestClose example_request] None None False),
        example_world
          \<lparr>trace := [CallView ''app.views.index'' []],
           current_urlconf := Some ''app.urls'',
           resolver_match :=
             Some (example_view False (Inr (PyResponse (plain_response 200 ''OK''))), [], [])\<rparr>)"
proof -
  have run: "get_response (c9_env s p)
       (fst (snd (load_middleware (c9_env s p) False new_handler))) example_request example_world
     = (Inr (Response s p [] [RequestClose example_request] None None (400 \<le> s)),
        if 400 \<le> s
        then emit (LogResponse (p @ '': /a'') s)
               (example_world
                  \<lparr>trace := [CallView ''app.views.index'' []],
                   current_urlconf := Some ''app.urls'',
                   resolver_match :=
                     Some (example_view False (Inr (PyResponse (plain_response s p))), [], [])\<rparr>)
        else example_world
               \<lparr>trace := [CallView ''app.views.index'' []],
                current_urlconf := Some ''app.urls'',
                resolver_match :=
                  Some (example_view False (Inr (PyResponse (plain_response s p))), [], [])\<rparr>)"
    for s p
  proof -
    let ?env = "c9_env s p"
    let ?h = "fst (snd (load_middleware ?env False new_handler))"
    let ?chain = "\<lambda>self. convert_exception_to_response ?env (u_get_response ?env self)"
    have chain: "u_middleware_chain ?h = Some ?chain"
      by (simp add: c9_env_def example_defs load_defs Let_def)
    have result: "?chain (hooks ?h) example_request
                   (set_urlconf (Some (ROOT_URLCONF ?env)) example_world)
                = (Inr (PyResponse (plain_response s p)),
                   example_world
                     \<lparr>trace := [CallView ''app.views.index'' []],
                      current_urlconf := Some ''app.urls'',
                      resolver_match :=
                        Some (example_view False (Inr (PyResponse (plain_response s p))),
                              [], [])\<rparr>)"
      by (simp add: c9_env_def example_defs load_defs dispatch_defs Let_def
          convert_exception_to_response_def)
    from entry_point_bookkeeping[OF chain result, THEN conjunct1] show ?thesis
      by (simp add: plain_response_def c9_env_def example_env_def example_request_def)
  qed
  from run[of 404 "''Not Found''"] run[of 200 "''OK''"] show ?thesis
    by (simp add: emit_def example_world_def)
qed

text \<open>
  The claim as stated fails for a response that the classifier has logged: a view that
  raises \<^verbatim>\<open>PermissionDenied\<close> is answered with status 403, the only line logged is
  the one of the classifier, and the entry point emits no line made of the reason phrase
  and the path.
\<close>

theorem entry_point_logged_once_counterexample:
  "get_response c9_denied_env (fst (snd (load_middleware c9_denied_env False new_handler)))
     example_request example_world
   = (Inr (Response 403 ''Forbidden'' [] [RequestClose example_request] None None True),
      example_world
        \<lparr>trace := [CallView ''app.views.index'' [],
                   LogResponse ''Forbidden (Permission denied): /a'' 403],
         current_urlconf := Some ''app.urls'',
         resolver_match :=
           Some (example_view False (Inl (Exception PermissionDenied ''no access'')), [], [])\<rparr>)"
  by (simp add: c9_denied_env_def example_defs load_defs dispatch_defs Let_def get_response_def
      finish_response_def append_closer_def convert_exception_to_response_def
      response_for_exception_def rendered_result_def logged_result_def
      get_exception_response_def force_render_def log_response_def mark_logged_def)

subsection \<open>The on-fault hooks\<close>

lemma process_exception_first:
  "\<forall>x\<in>set hs1. exception_hook_declines x request exc \<Longrightarrow>
   hook_call hk request exc = Inr r \<Longrightarrow> truthy r \<Longrightarrow>
   process_exception_by_middleware (hs1 @ hk # hs2) exc request w
     = (Inr r, add_trace (called ''process_exception'' (hs1 @ [hk])) w)"
proof (induction hs1 arbitrary: w)
  case Nil
  then show ?case by (simp add: add_trace_def called_def emit_def)
next
  case (Cons a hs1)
  then show ?case
    by (auto simp: add_trace_def called_def emit_def exception_hook_declines_def
        split: sum.splits)
qed

lemma process_exception_none:
  "\<forall>x\<in>set hs. exception_hook_declines x request exc \<Longrightarrow>
   process_exception_by_middleware hs exc request w
     = (Inr PyNone, add_trace (called ''process_exception'' hs) w)"
proof (induction hs arbitrary: w)
  case Nil
  then show ?case by (simp add: add_trace_def called_def)
next
  case (Cons a hs)
  then show ?case
    by (auto simp: add_trace_def called_def emit_def exception_hook_declines_def
        split: sum.splits)
qed

text \<open>
  C10. The on-fault hooks of a loaded handler are those of the configuration in reverse
  configuration order (the hook of the last configured stage first), and
  \<open>process_exception_by_middleware\<close> calls them in that order: it returns the value of
  the first hook that returns a true value, having called no later hook, and
  \<^verbatim>\<open>None\<close> when every hook declines.
\<close>

theorem exception_hooks_reverse_order:
  assumes "load_middleware env is_async self = (None, h, l)"
  shows "u_exception_middleware (hooks h) = rev (exception_hooks_of (MIDDLEWARE env))
       \<and> (\<forall>hs1 hk hs2 r.
            rev (exception_hooks_of (MIDDLEWARE env)) = hs1 @ hk # hs2
            \<and> (\<forall>x\<in>set hs1. exception_hook_declines x request exc)
            \<and> hook_call hk request exc = Inr r \<and> truthy r
            \<longrightarrow> process_exception_by_middleware (u_exception_middleware (hooks h)) exc request w
                  = (Inr r, add_trace (called ''process_exception'' (hs1 @ [hk])) w))
       \<and> ((\<forall>x\<in>set (exception_hooks_of (MIDDLEWARE env)). exception_hook_declines x request exc)
            \<longrightarrow> process_exception_by_middleware (u_exception_middleware (hooks h)) exc request w
                  = (Inr PyNone,
                     add_trace (called ''process_exception''
                                  (rev (exception_hooks_of (MIDDLEWARE env)))) w))"
proof -
  have order: "u_exception_middleware (hooks h) = rev (exception_hooks_of (MIDDLEWARE env))"
    using assms by (rule load_middleware_lists)
  show ?thesis
    unfolding order
    using process_exception_first[of _ request exc _ _ _ w]
      process_exception_none[of "rev (exception_hooks_of (MIDDLEWARE env))" request exc w]
    by auto
qed

theorem exception_hooks_reverse_order_witness:
  "fst (load_middleware c10_env False new_handler) = None
   \<and> u_exception_middleware (hooks (fst (snd (load_middleware c10_env False new_handler))))
       = [c10_hook_B, c10_hook_A]
   \<and> process_exception_by_middleware
       (u_exception_middleware (hooks (fst (snd (load_middleware c10_env False new_handler)))))
       (Exception ValueError ''boom'') example_request example_world
       = (Inr (PyResponse (plain_response 200 ''OK'')),
          add_trace [CallHook ''B'' ''process_exception'', CallHook ''A'' ''process_exception'']
            example_world)"
proof -
  let ?h = "fst (snd (load_middleware c10_env False new_handler))"
  let ?e = "Exception ValueError ''boom''"
  have loaded: "fst (load_middleware c10_env False new_handler) = None"
    by (simp add: c10_env_def example_defs load_defs Let_def)
  have conf: "exception_hooks_of (MIDDLEWARE c10_env) = [c10_hook_A, c10_hook_B]"
    by (simp add: c10_env_def example_defs exception_hooks_of_def List.map_filter_simps)
  note t = exception_hooks_reverse_order[OF load_result[OF loaded], of example_request ?e
      example_world]
  have order: "u_exception_middleware (hooks ?h) = [c10_hook_B, c10_hook_A]"
    using t by (simp add: conf)
  have "process_exception_by_middleware (u_exception_middleware (hooks ?h)) ?e example_request
          example_world
        = (Inr (PyResponse (plain_response 200 ''OK'')),
           add_trace (called ''process_exception'' ([c10_hook_B] @ [c10_hook_A])) example_world)"
    by (rule t[THEN conjunct2, THEN conjunct1, rule_format, of "[c10_hook_B]" c10_hook_A "[]"])
      (simp add: conf c10_hook_A_def c10_hook_B_def example_hook_def exception_hook_declines_def)
  then have run: "process_exception_by_middleware (u_exception_middleware (hooks ?h)) ?e
          example_request example_world
        = (Inr (PyResponse (plain_response 200 ''OK'')),
           add_trace [CallHook ''B'' ''process_exception'', CallHook ''A'' ''process_exception'']
             example_world)"
    by (simp add: called_def hook_event_def c10_hook_A_def c10_hook_B_def example_hook_def)
  from loaded order run show ?thesis by blast
qed

end
